theory Spec2Isabelle
  imports Complex_Main "HOL-Library.AList"
begin

section \<open>Python values, errors and keyword mappings\<close>

text \<open>
  The widget manager of pygame-menu (\<^verbatim>\<open>pygame_menu/_widgetmanager.py\<close>) receives
  dynamically typed values through \<^verbatim>\<open>**kwargs\<close> and from the Theme. The values it
  inspects are modelled by one datatype; each \<^verbatim>\<open>isinstance\<close> test of the source is a
  predicate on it. A Python \<^verbatim>\<open>bool\<close> is an instance of \<^verbatim>\<open>int\<close>, which the
  predicates respect.
\<close>

datatype pyfloat = Finite rat | PosInf | NegInf | NaN

datatype selection = NoneSelection | Selection nat

datatype pyval =
    PNone
  | PBool bool
  | PInt int
  | PFloat pyfloat
  | PStr string
  | PTuple "pyval list"
  | PList "pyval list"
  | PPath string
  | PBaseImage nat
  | PSelection selection
  | PObject nat

datatype error =
    AssertionError string
  | ValueError string
  | IndexError string
  | TypeError string
  | ZeroDivisionError
  | RecursionError

type_synonym kwargs = "(string \<times> pyval) list"

text \<open>Raising and sequencing: \<open>Inl\<close> is a raised exception, \<open>Inr\<close> a normal result.\<close>

definition bind :: "error + 'a \<Rightarrow> ('a \<Rightarrow> error + 'b) \<Rightarrow> error + 'b" where
  "bind m f = (case m of Inl e \<Rightarrow> Inl e | Inr x \<Rightarrow> f x)"

definition py_assert :: "bool \<Rightarrow> string \<Rightarrow> error + unit" where
  "py_assert b msg = (if b then Inr () else Inl (AssertionError msg))"

definition raise_opt :: "error option \<Rightarrow> error + unit" where
  "raise_opt r = (case r of None \<Rightarrow> Inr () | Some e \<Rightarrow> Inl e)"

text \<open>\<^verbatim>\<open>isinstance(v, str)\<close>, \<^verbatim>\<open>isinstance(v, int)\<close> and the other type tests.\<close>

fun is_str :: "pyval \<Rightarrow> bool" where
  "is_str (PStr s) = True"
| "is_str v = False"

fun is_int :: "pyval \<Rightarrow> bool" where
  "is_int (PInt i) = True"
| "is_int (PBool b) = True"
| "is_int v = False"

fun is_float :: "pyval \<Rightarrow> bool" where
  "is_float (PFloat f) = True"
| "is_float v = False"

fun is_bool :: "pyval \<Rightarrow> bool" where
  "is_bool (PBool b) = True"
| "is_bool v = False"

fun is_tuple :: "pyval \<Rightarrow> bool" where
  "is_tuple (PTuple xs) = True"
| "is_tuple v = False"

fun is_Path :: "pyval \<Rightarrow> bool" where
  "is_Path (PPath s) = True"
| "is_Path v = False"

fun is_BaseImage :: "pyval \<Rightarrow> bool" where
  "is_BaseImage (PBaseImage i) = True"
| "is_BaseImage v = False"

fun is_Selection :: "pyval \<Rightarrow> bool" where
  "is_Selection (PSelection s) = True"
| "is_Selection v = False"

text \<open>The integer a Python \<^verbatim>\<open>int\<close> (or \<^verbatim>\<open>bool\<close>) stands for.\<close>

fun int_of :: "pyval \<Rightarrow> int" where
  "int_of (PInt i) = i"
| "int_of (PBool b) = (if b then 1 else 0)"
| "int_of v = 0"

text \<open>\<^verbatim>\<open>str(v)\<close> for a string or a \<^verbatim>\<open>Path\<close>, the only values it is applied to.\<close>

fun py_str :: "pyval \<Rightarrow> string" where
  "py_str (PStr s) = s"
| "py_str (PPath s) = s"
| "py_str v = []"

text \<open>\<^verbatim>\<open>len(v)\<close> of a tuple.\<close>

fun tuple_len :: "pyval \<Rightarrow> nat" where
  "tuple_len (PTuple xs) = length xs"
| "tuple_len v = 0"

text \<open>
  \<^verbatim>\<open>v[i]\<close>: a sequence raises IndexError out of range, a value that is no sequence
  raises TypeError.
\<close>

fun py_index :: "pyval \<Rightarrow> nat \<Rightarrow> error + pyval" where
  "py_index (PTuple xs) i = (if i < length xs then Inr (xs ! i) else Inl (IndexError ''tuple index out of range''))"
| "py_index (PList xs) i = (if i < length xs then Inr (xs ! i) else Inl (IndexError ''list index out of range''))"
| "py_index (PStr s) i = (if i < length s then Inr (PStr [s ! i]) else Inl (IndexError ''string index out of range''))"
| "py_index v i = Inl (TypeError ''object is not subscriptable'')"

text \<open>\<^verbatim>\<open>v >= 0\<close>: defined on numbers, TypeError on anything else.\<close>

fun float_ge0 :: "pyfloat \<Rightarrow> bool" where
  "float_ge0 (Finite q) = (0 \<le> q)"
| "float_ge0 PosInf = True"
| "float_ge0 NegInf = False"
| "float_ge0 NaN = False"

fun py_ge0 :: "pyval \<Rightarrow> error + bool" where
  "py_ge0 (PInt i) = Inr (0 \<le> i)"
| "py_ge0 (PBool b) = Inr True"
| "py_ge0 (PFloat f) = Inr (float_ge0 f)"
| "py_ge0 v = Inl (TypeError ''>= not supported'')"

text \<open>
  A \<^verbatim>\<open>dict\<close> keeps insertion order, and \<^verbatim>\<open>_check_kwargs\<close> reports the first key it
  iterates over, so a mapping is an association list. \<^verbatim>\<open>d.pop(key, default)\<close> returns
  the value stored under the key, or the default, and removes the key.
\<close>

definition kw_get :: "kwargs \<Rightarrow> string \<Rightarrow> pyval \<Rightarrow> pyval" where
  "kw_get kw k d = (case map_of kw k of Some v \<Rightarrow> v | None \<Rightarrow> d)"

definition kw_delete :: "string \<Rightarrow> kwargs \<Rightarrow> kwargs" where
  "kw_delete k kw = filter (\<lambda>p. fst p \<noteq> k) kw"

definition pop :: "string \<Rightarrow> pyval \<Rightarrow> kwargs \<Rightarrow> pyval \<times> kwargs" where
  "pop k d kw = (kw_get kw k d, kw_delete k kw)"

text \<open>\<^verbatim>\<open>d[key] = value\<close>: replaces in place, or appends a new key at the end.\<close>

definition dict_set :: "string \<Rightarrow> pyval \<Rightarrow> kwargs \<Rightarrow> kwargs" where
  "dict_set k v d = AList.update k v d"

section \<open>Theme and collaborators outside the module\<close>

text \<open>
  The Theme is read only. Its fields hold whatever the Theme's owner stored, so they are
  \<open>pyval\<close>s that the resolver validates like caller values; the flag
  \<^verbatim>\<open>widget_font_background_color_from_menu\<close> is used as a truth value.
\<close>

record theme =
  background_color :: pyval
  readonly_color :: pyval
  readonly_selected_color :: pyval
  selection_color :: pyval
  widget_alignment :: pyval
  widget_background_color :: pyval
  widget_background_inflate :: pyval
  widget_border_color :: pyval
  widget_border_inflate :: pyval
  widget_border_width :: pyval
  widget_font :: pyval
  widget_font_antialias :: pyval
  widget_font_background_color :: pyval
  widget_font_background_color_from_menu :: bool
  widget_font_color :: pyval
  widget_font_size :: pyval
  widget_margin :: pyval
  widget_padding :: pyval
  widget_selection_effect :: pyval
  widget_shadow :: pyval
  widget_shadow_color :: pyval
  widget_shadow_offset :: pyval
  widget_shadow_position :: pyval

text \<open>
  The helpers of \<^verbatim>\<open>pygame_menu.utils\<close> and the libraries the module calls are not part
  of the file. They are parameters of the model: \<open>assert_color\<close> and \<open>assert_vector\<close>
  return the exception they raise, if any; \<open>wrap\<close> is \<^verbatim>\<open>textwrap.wrap\<close>;
  \<open>probe_max_char\<close> is the character threshold that \<^verbatim>\<open>label\<close> derives from the
  rendered width of its probe widget; \<open>PYGAME_QUIT\<close> and \<open>PYGAME_WINDOWCLOSE\<close> are
  the event numbers of \<^verbatim>\<open>pygame_menu.events\<close>.
\<close>

record env =
  assert_color :: "pyval \<Rightarrow> error option"
  assert_vector :: "pyval \<Rightarrow> nat \<Rightarrow> error option"
  wrap :: "string \<Rightarrow> int \<Rightarrow> error + string list"
  probe_max_char :: "string \<Rightarrow> kwargs \<Rightarrow> error + int"
  PYGAME_QUIT :: int
  PYGAME_WINDOWCLOSE :: int

section \<open>Attribute resolution\<close>

text \<open>
  \<^verbatim>\<open>WidgetManager._filter_widget_attributes(kwargs)\<close>: the statements of the source in
  their order. The result is the attribute dictionary together with the caller's mapping
  after the pops; a failed assertion or a raising helper ends the call.
\<close>

definition filter_widget_attributes :: "env \<Rightarrow> theme \<Rightarrow> kwargs \<Rightarrow> error + (kwargs \<times> kwargs)" where
  "filter_widget_attributes env th kwargs =
    (let attributes = [];
         (align, kwargs) = pop ''align'' (widget_alignment th) kwargs in
     bind (py_assert (is_str align) []) (\<lambda>_.
     let attributes = dict_set ''align'' align attributes;
         (background_color, kwargs) = pop ''background_color'' (widget_background_color th) kwargs in
     bind (if background_color \<noteq> PNone then
             (if is_BaseImage background_color then Inr False
              else bind (raise_opt (assert_color env background_color)) (\<lambda>_. Inr True))
           else Inr False) (\<lambda>background_is_color.
     let attributes = dict_set ''background_color'' background_color attributes;
         (background_inflate, kwargs) = pop ''background_inflate'' (widget_background_inflate th) kwargs in
     bind (raise_opt (assert_vector env background_inflate 2)) (\<lambda>_.
     bind (py_index background_inflate 0) (\<lambda>b0.
     bind (py_ge0 b0) (\<lambda>c0.
     bind (if c0 then bind (py_index background_inflate 1) py_ge0 else Inr False) (\<lambda>c1.
     bind (py_assert (c0 \<and> c1)
        ''both background inflate components must be equal or greater than zero'') (\<lambda>_.
     let attributes = dict_set ''background_inflate'' background_inflate attributes;
         (border_color, kwargs) = pop ''border_color'' (widget_border_color th) kwargs in
     bind (raise_opt (assert_color env border_color)) (\<lambda>_.
     let attributes = dict_set ''border_color'' border_color attributes;
         (border_inflate, kwargs) = pop ''border_inflate'' (widget_border_inflate th) kwargs in
     bind (raise_opt (assert_vector env border_inflate 2)) (\<lambda>_.
     bind (py_index border_inflate 0) (\<lambda>i0.
     bind (py_assert (is_int i0 \<and> 0 \<le> int_of i0) []) (\<lambda>_.
     bind (py_index border_inflate 1) (\<lambda>i1.
     bind (py_assert (is_int i1 \<and> 0 \<le> int_of i1) []) (\<lambda>_.
     let attributes = dict_set ''border_inflate'' border_inflate attributes;
         (border_width, kwargs) = pop ''border_width'' (widget_border_width th) kwargs in
     bind (py_assert (is_int border_width \<and> 0 \<le> int_of border_width) []) (\<lambda>_.
     let attributes = dict_set ''border_width'' border_width attributes;
         attributes = dict_set ''font_antialias'' (widget_font_antialias th) attributes;
         (font_background_color, kwargs) =
            pop ''font_background_color'' (widget_font_background_color th) kwargs in
     bind (if font_background_color = PNone \<and> widget_font_background_color_from_menu th
              \<and> \<not> background_is_color then
             (if is_tuple (theme.background_color th) then
                bind (raise_opt (assert_color env (theme.background_color th)))
                  (\<lambda>_. Inr (theme.background_color th))
              else Inr font_background_color)
           else Inr font_background_color) (\<lambda>font_background_color.
     let attributes = dict_set ''font_background_color'' font_background_color attributes;
         (font_color, kwargs) = pop ''font_color'' (widget_font_color th) kwargs in
     bind (raise_opt (assert_color env font_color)) (\<lambda>_.
     let attributes = dict_set ''font_color'' font_color attributes;
         (font_name, kwargs) = pop ''font_name'' (widget_font th) kwargs in
     bind (py_assert (is_str font_name \<or> is_Path font_name) []) (\<lambda>_.
     let attributes = dict_set ''font_name'' (PStr (py_str font_name)) attributes;
         (font_size, kwargs) = pop ''font_size'' (widget_font_size th) kwargs in
     bind (py_assert (is_int font_size) []) (\<lambda>_.
     bind (py_assert (0 < int_of font_size) ''font size must be greater than zero'') (\<lambda>_.
     let attributes = dict_set ''font_size'' font_size attributes;
         (margin, kwargs) = pop ''margin'' (widget_margin th) kwargs in
     bind (py_assert (is_tuple margin) []) (\<lambda>_.
     bind (py_assert (tuple_len margin = 2) ''margin must be a tuple or list of 2 numbers'') (\<lambda>_.
     let attributes = dict_set ''margin'' margin attributes;
         (padding, kwargs) = pop ''padding'' (widget_padding th) kwargs in
     bind (py_assert (is_int padding \<or> is_float padding \<or> is_tuple padding) []) (\<lambda>_.
     let attributes = dict_set ''padding'' padding attributes;
         (readonly_color, kwargs) = pop ''readonly_color'' (theme.readonly_color th) kwargs in
     bind (raise_opt (assert_color env readonly_color)) (\<lambda>_.
     let attributes = dict_set ''readonly_color'' readonly_color attributes;
         (readonly_selected_color, kwargs) =
            pop ''readonly_selected_color'' (theme.readonly_selected_color th) kwargs in
     bind (raise_opt (assert_color env readonly_selected_color)) (\<lambda>_.
     let attributes = dict_set ''readonly_selected_color'' readonly_selected_color attributes;
         (selection_color, kwargs) = pop ''selection_color'' (theme.selection_color th) kwargs in
     bind (raise_opt (assert_color env selection_color)) (\<lambda>_.
     let attributes = dict_set ''selection_color'' selection_color attributes;
         (selection_effect, kwargs) = pop ''selection_effect'' (widget_selection_effect th) kwargs;
         selection_effect =
            (if selection_effect = PNone then PSelection NoneSelection else selection_effect) in
     bind (py_assert (is_Selection selection_effect) []) (\<lambda>_.
     let attributes = dict_set ''selection_effect'' selection_effect attributes;
         (shadow, kwargs) = pop ''shadow'' (widget_shadow th) kwargs in
     bind (py_assert (is_bool shadow) []) (\<lambda>_.
     let attributes = dict_set ''shadow'' shadow attributes;
         (shadow_color, kwargs) = pop ''shadow_color'' (widget_shadow_color th) kwargs in
     bind (raise_opt (assert_color env shadow_color)) (\<lambda>_.
     let attributes = dict_set ''shadow_color'' shadow_color attributes;
         (shadow_position, kwargs) = pop ''shadow_position'' (widget_shadow_position th) kwargs in
     bind (py_assert (is_str shadow_position) []) (\<lambda>_.
     let attributes = dict_set ''shadow_position'' shadow_position attributes;
         (shadow_offset, kwargs) = pop ''shadow_offset'' (widget_shadow_offset th) kwargs in
     bind (py_assert (is_int shadow_offset \<or> is_float shadow_offset) []) (\<lambda>_.
     let attributes = dict_set ''shadow_offset'' shadow_offset attributes in
     Inr (attributes, kwargs))))))))))))))))))))))))))))))))"

text \<open>
  \<^verbatim>\<open>WidgetManager._check_kwargs(kwargs)\<close>: the loop raises in its first iteration, so
  the error names the first key of the mapping and an empty mapping passes.
\<close>

definition check_kwargs_msg :: "string \<Rightarrow> string" where
  "check_kwargs_msg invalid_keyword =
     ''widget addition optional parameter kwargs.'' @ invalid_keyword @ '' is not valid''"

fun check_kwargs :: "kwargs \<Rightarrow> error + unit" where
  "check_kwargs [] = Inr ()"
| "check_kwargs ((invalid_keyword, v) # rest) = Inl (ValueError (check_kwargs_msg invalid_keyword))"


section \<open>Widgets, menus and the object store\<close>

text \<open>
  The widget classes and the Menu class live in other files of the package. What the
  widget manager reads and writes of them is modelled by records. A widget is a value:
  the manager finishes every change to a widget before or while it appends it, and never
  touches it again. Menus are objects that refer to each other (a button may open another
  menu), so they live in a store of menus and are named by their position in it.
\<close>

datatype widget_kind = Button | Label | Image | TextInput

text \<open>
  What a button runs when it is pressed: the bound Menu method with its argument, or the
  caller's function with the positional and keyword arguments to apply it to.
\<close>

datatype onreturn =
    NoCallback
  | MenuOpen nat
  | MenuReset int
  | MenuClose
  | MenuExit
  | MenuFullReset
  | Call nat "pyval list" kwargs

record widget =
  get_id :: string
  get_title :: string
  kind :: widget_kind
  is_selectable :: bool
  get_menu :: "nat option"
  selected :: bool
  to_menu :: bool
  callback :: onreturn
  selection_callback :: pyval
  default_value :: pyval
  init_kwargs :: kwargs
  style :: kwargs
  controls :: "nat option"

text \<open>
  Modelled from the spec: the widget constructors (\<^verbatim>\<open>pygame_menu.widgets\<close>) are not
  under src. The spec gives a widget an ID, a selectable flag, an owning-container
  back-reference that is unset at construction, and style attributes applied later. The
  constructor stores its arguments; the ID is stored as given.
\<close>

definition Widget :: "widget_kind \<Rightarrow> string \<Rightarrow> string \<Rightarrow> onreturn \<Rightarrow> pyval \<Rightarrow> kwargs \<Rightarrow> widget" where
  "Widget k title widget_id cb onselect kw =
     \<lparr> get_id = widget_id, get_title = title, kind = k, is_selectable = True,
       get_menu = None, selected = False, to_menu = False, callback = cb,
       selection_callback = onselect, default_value = PNone, init_kwargs = kw,
       style = [], controls = None \<rparr>"

record menu =
  menu_title :: string
  get_theme :: theme
  widgets :: "widget list"
  submenus :: "nat list"
  index :: int
  added_widgets :: nat
  widgets_surface :: "nat option"
  render_requests :: nat

type_synonym store = "menu list"

text \<open>
  A factory call runs on the store and either returns or raises; the store it leaves
  behind is part of the outcome in both cases, since a raised exception does not undo
  the assignments made before it.
\<close>

type_synonym 'a outcome = "(error + 'a) \<times> store"

definition sbind :: "(store \<Rightarrow> 'a outcome) \<Rightarrow> ('a \<Rightarrow> store \<Rightarrow> 'b outcome) \<Rightarrow> store \<Rightarrow> 'b outcome" where
  "sbind m f st = (case m st of (Inl e, st') \<Rightarrow> (Inl e, st') | (Inr x, st') \<Rightarrow> f x st')"

definition pure :: "error + 'a \<Rightarrow> store \<Rightarrow> 'a outcome" where
  "pure r st = (r, st)"

definition update_menu :: "nat \<Rightarrow> (menu \<Rightarrow> menu) \<Rightarrow> store \<Rightarrow> unit outcome" where
  "update_menu m f st = (Inr (), st[m := f (st ! m)])"

text \<open>
  Modelled from the spec: \<^verbatim>\<open>Menu._check_id_duplicated\<close> is not under src. The spec
  requires widget IDs to be unique within one container and a second widget with an ID
  already in the container to be refused.
\<close>

definition check_id_duplicated :: "menu \<Rightarrow> string \<Rightarrow> error + unit" where
  "check_id_duplicated m widget_id =
     (if widget_id \<in> set (map get_id (widgets m))
      then Inl (IndexError widget_id) else Inr ())"

text \<open>
  Modelled from the spec: \<^verbatim>\<open>Menu._render\<close> is not under src. The spec calls it a
  request to re-render that recomputes the layout from the widget sequence; the model
  counts the requests and leaves the widget sequence and the selection index alone.
\<close>

definition render :: "menu \<Rightarrow> menu" where
  "render m = m\<lparr>render_requests := render_requests m + 1\<rparr>"

text \<open>
  Modelled from the spec: \<^verbatim>\<open>Menu.in_submenu\<close> is not under src. With
  \<^verbatim>\<open>recursive=True\<close> the spec asks whether the menu (transitively) contains the
  other one as a submenu, that is, whether the other one is reachable along the
  submenu lists.
\<close>

definition submenu_edges :: "store \<Rightarrow> (nat \<times> nat) set" where
  "submenu_edges st = set (concat (map (\<lambda>a. map (Pair a) (submenus (st ! a))) [0..<length st]))"

definition in_submenu :: "store \<Rightarrow> nat \<Rightarrow> nat \<Rightarrow> bool \<Rightarrow> bool" where
  "in_submenu st a m recursive =
     (if recursive then (a, m) \<in> trancl (submenu_edges st) else m \<in> set (submenus (st ! a)))"

section \<open>Binding and registration\<close>

text \<open>
  \<^verbatim>\<open>WidgetManager._configure_widget(widget, **kwargs)\<close>. The setters of the widget
  base class are not under src. Modelled from the spec: they apply every field of the
  bundle to the widget's style state and wire the container's input devices.
\<close>

definition configure_widget :: "store \<Rightarrow> nat \<Rightarrow> widget \<Rightarrow> kwargs \<Rightarrow> error + widget" where
  "configure_widget st self_menu widget attributes =
     bind (py_assert (get_menu widget = None) ''widget cannot have an instance of menu'') (\<lambda>_.
     let widget = widget\<lparr>get_menu := Some self_menu\<rparr> in
     bind (check_id_duplicated (st ! self_menu) (get_id widget)) (\<lambda>_.
     Inr (widget\<lparr>style := attributes, controls := Some self_menu\<rparr>)))"

text \<open>
  \<^verbatim>\<open>WidgetManager._append_widget(widget)\<close>. The source appends the widget object and
  then calls \<^verbatim>\<open>widget.select()\<close> on it; the list holds that same object, so in the
  model the selection is written to the last entry of the list. The Python method returns
  nothing; the model returns the widget as it stands in the list, which is the object the
  factories hand back to their caller.
\<close>

definition select_last :: "menu \<Rightarrow> menu" where
  "select_last m =
     m\<lparr>widgets := butlast (widgets m) @ [(last (widgets m))\<lparr>selected := True\<rparr>]\<rparr>"

definition append_widget :: "nat \<Rightarrow> widget \<Rightarrow> store \<Rightarrow> widget outcome" where
  "append_widget self_menu widget =
     sbind (pure (py_assert (get_menu widget = Some self_menu)
                    ''widget cannot have a different instance of menu'')) (\<lambda>_.
     sbind (update_menu self_menu (\<lambda>m. m\<lparr>widgets := widgets m @ [widget]\<rparr>)) (\<lambda>_.
     sbind (\<lambda>st. if index (st ! self_menu) < 0 \<and> is_selectable widget
                 then sbind (update_menu self_menu select_last) (\<lambda>_.
                      update_menu self_menu (\<lambda>m. m\<lparr>index := int (length (widgets m)) - 1\<rparr>)) st
                 else pure (Inr ()) st) (\<lambda>_.
     sbind (update_menu self_menu (\<lambda>m. m\<lparr>added_widgets := added_widgets m + 1\<rparr>)) (\<lambda>_.
     sbind (update_menu self_menu (\<lambda>m. m\<lparr>widgets_surface := None\<rparr>)) (\<lambda>_.
     sbind (update_menu self_menu render) (\<lambda>_.
     (\<lambda>st. pure (Inr (last (widgets (st ! self_menu)))) st)))))))"

section \<open>Widget factories\<close>

text \<open>
  The target of a button: a Menu (named by its place in the store), one of the
  \<^verbatim>\<open>MenuAction\<close> events, \<^verbatim>\<open>None\<close>, an integer (the pygame event numbers are
  integers), a callable, or any other object.
\<close>

datatype menu_action = BACK | CLOSE | EXIT | NONE | RESET

datatype action =
    ActNone
  | ActMenu nat
  | ActEvent menu_action
  | ActInt int
  | ActCallable nat
  | ActOther pyval

fun bool_of :: "pyval \<Rightarrow> bool" where
  "bool_of (PBool b) = b"
| "bool_of v = False"

definition recursive_menu_msg :: "string \<Rightarrow> string" where
  "recursive_menu_msg t =
     ''Menu \"'' @ t @ ''\" is already on submenu structure, recursive menus lead '' @
     ''to unexpected behaviours. For returning to previous menu use '' @
     ''pygame_menu.events.BACK event defining an optional back_count '' @
     ''number of menus to return from, default is 1''"

text \<open>
  \<^verbatim>\<open>WidgetManager.button(title, action, *args, **kwargs)\<close>. The warning issued before
  the error of \<^verbatim>\<open>_check_kwargs\<close> is re-raised has no effect on the outcome.
\<close>

definition button :: "env \<Rightarrow> nat \<Rightarrow> string \<Rightarrow> action \<Rightarrow> pyval list \<Rightarrow> kwargs \<Rightarrow> store \<Rightarrow> widget outcome" where
  "button env self_menu title action args kwargs =
    (let (total_back, kwargs) = pop ''back_count'' (PInt 1) kwargs in
     sbind (pure (py_assert (is_int total_back \<and> 1 \<le> int_of total_back) [])) (\<lambda>_.
     let (button_id, kwargs) = pop ''button_id'' (PStr []) kwargs in
     sbind (pure (py_assert (is_str button_id) ''id must be a string'')) (\<lambda>_.
     let (accept_kwargs, kwargs) = pop ''accept_kwargs'' (PBool False) kwargs in
     sbind (pure (py_assert (is_bool accept_kwargs) [])) (\<lambda>_.
     let (onselect, kwargs) = pop ''onselect'' PNone kwargs in
     sbind (\<lambda>st. pure (filter_widget_attributes env (get_theme (st ! self_menu)) kwargs) st)
       (\<lambda>(attributes, kwargs).
     let action = (if action = ActInt (PYGAME_QUIT env) \<or> action = ActInt (PYGAME_WINDOWCLOSE env)
                   then ActEvent EXIT
                   else if action = ActNone then ActEvent NONE else action) in
     sbind (case action of
         ActMenu target \<Rightarrow>
           sbind (\<lambda>st. pure (if target = self_menu \<or> in_submenu st target self_menu True
                             then Inl (ValueError (recursive_menu_msg (menu_title (st ! target))))
                             else Inr ()) st) (\<lambda>_.
           sbind (update_menu self_menu (\<lambda>m. m\<lparr>submenus := submenus m @ [target]\<rparr>)) (\<lambda>_.
           pure (Inr ((Widget Button title (py_str button_id) (MenuOpen target) PNone [])
                        \<lparr>to_menu := True\<rparr>))))
       | ActEvent BACK \<Rightarrow>
           pure (Inr (Widget Button title (py_str button_id) (MenuReset (int_of total_back)) PNone []))
       | ActEvent CLOSE \<Rightarrow>
           pure (Inr (Widget Button title (py_str button_id) MenuClose PNone []))
       | ActEvent EXIT \<Rightarrow>
           pure (Inr (Widget Button title (py_str button_id) MenuExit PNone []))
       | ActEvent NONE \<Rightarrow>
           pure (Inr (Widget Button title (py_str button_id) NoCallback PNone []))
       | ActEvent RESET \<Rightarrow>
           pure (Inr (Widget Button title (py_str button_id) MenuFullReset PNone []))
       | ActCallable f \<Rightarrow>
           (if \<not> bool_of accept_kwargs
            then pure (Inr (Widget Button title (py_str button_id) (Call f args []) PNone []))
            else pure (Inr (Widget Button title (py_str button_id) (Call f args kwargs) PNone kwargs)))
       | _ \<Rightarrow>
           pure (Inl (ValueError
             ''action must be a Menu, a MenuAction (event), a function (callable), or None'')))
       (\<lambda>widget.
     sbind (if \<not> bool_of accept_kwargs then pure (check_kwargs kwargs) else pure (Inr ())) (\<lambda>_.
     sbind (\<lambda>st. pure (configure_widget st self_menu widget attributes) st) (\<lambda>widget.
     let widget = widget\<lparr>selection_callback := onselect\<rparr> in
     append_widget self_menu widget))))))))"

text \<open>
  \<^verbatim>\<open>WidgetManager.image(image_path, angle, image_id, onselect, scale, scale_smooth,
  selectable, **kwargs)\<close>. The keys that make no sense for an image are dropped first.
\<close>

definition image :: "env \<Rightarrow> nat \<Rightarrow> pyval \<Rightarrow> pyval \<Rightarrow> string \<Rightarrow> pyval \<Rightarrow> pyval \<Rightarrow> bool \<Rightarrow> bool \<Rightarrow> kwargs \<Rightarrow> store \<Rightarrow> widget outcome" where
  "image env self_menu image_path angle image_id onselect scale scale_smooth selectable kwargs =
    (let kwargs = fold (\<lambda>key kw. snd (pop key PNone kw))
            [''font_background_color'', ''font_color'', ''font_name'', ''font_size'', ''shadow'',
             ''shadow_color'', ''shadow_position'', ''shadow_offset''] kwargs in
     sbind (\<lambda>st. pure (filter_widget_attributes env (get_theme (st ! self_menu)) kwargs) st)
       (\<lambda>(attributes, kwargs).
     let widget = Widget Image [] image_id NoCallback onselect
            [(''angle'', angle), (''image_path'', image_path), (''scale'', scale),
             (''scale_smooth'', PBool scale_smooth)];
         widget = widget\<lparr>is_selectable := selectable\<rparr> in
     sbind (pure (check_kwargs kwargs)) (\<lambda>_.
     sbind (\<lambda>st. pure (configure_widget st self_menu widget attributes) st) (\<lambda>widget.
     append_widget self_menu widget))))"

text \<open>
  \<^verbatim>\<open>str(n)\<close> of a natural number and \<^verbatim>\<open>s.split(sep)\<close> on a one-character separator.
\<close>

fun str_nat :: "nat \<Rightarrow> string" where
  "str_nat n = (if n < 10 then [char_of (48 + n)] else str_nat (n div 10) @ [char_of (48 + n mod 10)])"

declare str_nat.simps [simp del]

fun py_split :: "char \<Rightarrow> string \<Rightarrow> string list" where
  "py_split sep [] = [[]]"
| "py_split sep (c # cs) =
     (if c = sep then [] # py_split sep cs
      else (c # hd (py_split sep cs)) # tl (py_split sep cs))"

text \<open>A \<^verbatim>\<open>for\<close> loop whose body may raise: the first exception ends the loop.\<close>

fun for_loop :: "('a \<Rightarrow> 'b \<Rightarrow> store \<Rightarrow> 'b outcome) \<Rightarrow> 'a list \<Rightarrow> 'b \<Rightarrow> store \<Rightarrow> 'b outcome" where
  "for_loop body [] acc st = (Inr acc, st)"
| "for_loop body (x # xs) acc st =
     (case body x acc st of
        (Inl e, st') \<Rightarrow> (Inl e, st')
      | (Inr acc', st') \<Rightarrow> for_loop body xs acc' st')"

text \<open>
  \<^verbatim>\<open>WidgetManager.label(title, label_id, max_char, onselect, selectable, **kwargs)\<close>
  returns one widget or a list. The method calls itself on every line; the first argument
  of the model bounds the depth of these calls the way the interpreter's recursion limit
  does, and reaching it raises RecursionError. \<open>uuid\<close> is the string that
  \<^verbatim>\<open>str(uuid4())\<close> yields in this call. The probe widget of the automatic wrap is
  configured but never appended.
\<close>

datatype label_result = Single widget | Multiple "label_result list"

fun label :: "nat \<Rightarrow> env \<Rightarrow> nat \<Rightarrow> string \<Rightarrow> string \<Rightarrow> string \<Rightarrow> int \<Rightarrow> pyval \<Rightarrow> bool \<Rightarrow> kwargs \<Rightarrow> store \<Rightarrow> label_result outcome" where
  "label 0 env self_menu uuid title label_id max_char onselect selectable kwargs =
     pure (Inl RecursionError)"
| "label (Suc depth) env self_menu uuid title label_id max_char onselect selectable kwargs =
     sbind (pure (py_assert (max_char \<ge> -1) [])) (\<lambda>_.
     let label_id = (if length label_id = 0 then uuid else label_id) in
     if CHR 0x0A \<in> set title then
       sbind (for_loop (\<lambda>t widgets.
                sbind (label depth env self_menu uuid t
                         (label_id @ ''+'' @ str_nat (length widgets + 1))
                         max_char onselect selectable kwargs) (\<lambda>wig.
                pure (Inr (case wig of Multiple ws \<Rightarrow> widgets @ ws
                                     | Single w \<Rightarrow> widgets @ [Single w]))))
              (py_split (CHR 0x0A) title) []) (\<lambda>widgets.
       pure (Inr (Multiple widgets)))
     else
       sbind (if max_char < 0 then
                (\<lambda>st. pure (
                   bind (filter_widget_attributes env (get_theme (st ! self_menu)) kwargs)
                     (\<lambda>(dummy_attrs, _).
                   let dummy = Widget Label title [] NoCallback PNone [] in
                   bind (configure_widget st self_menu dummy dummy_attrs) (\<lambda>dummy.
                   probe_max_char env title dummy_attrs))) st)
              else pure (Inr max_char)) (\<lambda>max_char.
       if int (length title) \<le> max_char \<or> max_char = 0 then
         sbind (\<lambda>st. pure (filter_widget_attributes env (get_theme (st ! self_menu)) kwargs) st)
           (\<lambda>(attributes, kwargs).
         let widget = Widget Label title label_id NoCallback onselect [];
             widget = widget\<lparr>is_selectable := selectable\<rparr> in
         sbind (pure (check_kwargs kwargs)) (\<lambda>_.
         sbind (\<lambda>st. pure (configure_widget st self_menu widget attributes) st) (\<lambda>widget.
         sbind (append_widget self_menu widget) (\<lambda>widget.
         pure (Inr (Single widget))))))
       else
         sbind (\<lambda>st. pure (check_id_duplicated (st ! self_menu) label_id) st) (\<lambda>_.
         sbind (pure (wrap env title max_char)) (\<lambda>lines.
         sbind (for_loop (\<lambda>line widget.
                  sbind (label depth env self_menu uuid line
                           (label_id @ ''+'' @ str_nat (length widget + 1))
                           max_char onselect selectable kwargs) (\<lambda>w.
                  pure (Inr (widget @ [w])))) lines []) (\<lambda>widget.
         pure (Inr (Multiple widget)))))))"

text \<open>
  \<^verbatim>\<open>WidgetManager.text_input(title, default, ..., password, ..., textinput_id, ...,
  **kwargs)\<close>. The named parameters that the method only hands on to the widget's
  constructor (copy/paste and cursor switches, input type, underline, length limits, the
  change and return callbacks, tab size, valid characters) travel together as
  \<open>options\<close>; the leftover keys of \<^verbatim>\<open>kwargs\<close> are handed on as well.
\<close>

definition text_input :: "env \<Rightarrow> nat \<Rightarrow> string \<Rightarrow> pyval \<Rightarrow> kwargs \<Rightarrow> pyval \<Rightarrow> bool \<Rightarrow> string \<Rightarrow> kwargs \<Rightarrow> store \<Rightarrow> widget outcome" where
  "text_input env self_menu title default' options onselect password textinput_id kwargs =
     sbind (pure (py_assert (is_str default' \<or> is_int default' \<or> is_float default') [])) (\<lambda>_.
     sbind (\<lambda>st. pure (filter_widget_attributes env (get_theme (st ! self_menu)) kwargs) st)
       (\<lambda>(attributes, kwargs).
     let (input_underline_vmargin, kwargs) = pop ''input_underline_vmargin'' (PInt 0) kwargs in
     sbind (pure (if password \<and> default' \<noteq> PStr []
                  then Inl (ValueError ''default value must be empty if the input is a password'')
                  else Inr ())) (\<lambda>_.
     let widget = Widget TextInput title textinput_id NoCallback onselect
            (options @ [(''input_underline_vmargin'', input_underline_vmargin),
                        (''password'', PBool password)] @ kwargs) in
     sbind (\<lambda>st. pure (configure_widget st self_menu widget attributes) st) (\<lambda>widget.
     let widget = widget\<lparr>default_value := default'\<rparr> in
     append_widget self_menu widget))))"

section \<open>Vocabulary of the statements\<close>

text \<open>
  The keys that \<^verbatim>\<open>_filter_widget_attributes\<close> pops from the caller's mapping, in the
  order of the source, and the Theme field that each pop names as its default.
  \<^verbatim>\<open>font_antialias\<close> is a key of the bundle that is never popped.
\<close>

definition consumed_keys :: "string list" where
  "consumed_keys =
     [''align'', ''background_color'', ''background_inflate'', ''border_color'',
      ''border_inflate'', ''border_width'', ''font_background_color'', ''font_color'',
      ''font_name'', ''font_size'', ''margin'', ''padding'', ''readonly_color'',
      ''readonly_selected_color'', ''selection_color'', ''selection_effect'', ''shadow'',
      ''shadow_color'', ''shadow_position'', ''shadow_offset'']"

definition theme_default :: "theme \<Rightarrow> string \<Rightarrow> pyval" where
  "theme_default th k =
     (if k = ''align'' then widget_alignment th
      else if k = ''background_color'' then widget_background_color th
      else if k = ''background_inflate'' then widget_background_inflate th
      else if k = ''border_color'' then widget_border_color th
      else if k = ''border_inflate'' then widget_border_inflate th
      else if k = ''border_width'' then widget_border_width th
      else if k = ''font_antialias'' then widget_font_antialias th
      else if k = ''font_background_color'' then widget_font_background_color th
      else if k = ''font_color'' then widget_font_color th
      else if k = ''font_name'' then widget_font th
      else if k = ''font_size'' then widget_font_size th
      else if k = ''margin'' then widget_margin th
      else if k = ''padding'' then widget_padding th
      else if k = ''readonly_color'' then theme.readonly_color th
      else if k = ''readonly_selected_color'' then theme.readonly_selected_color th
      else if k = ''selection_color'' then theme.selection_color th
      else if k = ''selection_effect'' then widget_selection_effect th
      else if k = ''shadow'' then widget_shadow th
      else if k = ''shadow_color'' then widget_shadow_color th
      else if k = ''shadow_position'' then widget_shadow_position th
      else if k = ''shadow_offset'' then widget_shadow_offset th
      else PNone)"

text \<open>The value a key resolves from: the caller's, or else the Theme's default.\<close>

definition given :: "theme \<Rightarrow> kwargs \<Rightarrow> string \<Rightarrow> pyval" where
  "given th kw k = kw_get kw k (theme_default th k)"


text \<open>
  The outcome of a successful resolution, stated on the original mapping: which inputs
  are accepted, the bundle that is returned, and what is left of the mapping. The
  resolver is proved to agree with these three below (\<open>filter_widget_attributes_Inr_iff\<close>).
\<close>

text \<open>Component \<open>i\<close> of a vector exists and is a number \<open>\<ge> 0\<close>; is a non-negative \<^verbatim>\<open>int\<close>.\<close>

definition component_ge0 :: "pyval \<Rightarrow> nat \<Rightarrow> bool" where
  "component_ge0 v i = (bind (py_index v i) py_ge0 = Inr True)"

definition component_nat :: "pyval \<Rightarrow> nat \<Rightarrow> bool" where
  "component_nat v i = (case py_index v i of Inr x \<Rightarrow> is_int x \<and> 0 \<le> int_of x | Inl e \<Rightarrow> False)"

text \<open>
  The widget's own background is a flat color (\<^verbatim>\<open>background_is_color\<close> of the source):
  it is neither \<^verbatim>\<open>None\<close> nor an image.
\<close>

definition flat_background :: "theme \<Rightarrow> kwargs \<Rightarrow> bool" where
  "flat_background th kw =
     (given th kw ''background_color'' \<noteq> PNone \<and> \<not> is_BaseImage (given th kw ''background_color''))"

text \<open>When the font background is copied from the menu's background.\<close>

definition derives_font_background :: "theme \<Rightarrow> kwargs \<Rightarrow> bool" where
  "derives_font_background th kw =
     (given th kw ''font_background_color'' = PNone \<and> widget_font_background_color_from_menu th
      \<and> \<not> flat_background th kw \<and> is_tuple (theme.background_color th))"

definition font_background :: "theme \<Rightarrow> kwargs \<Rightarrow> pyval" where
  "font_background th kw =
     (if derives_font_background th kw then theme.background_color th
      else given th kw ''font_background_color'')"

definition selection_effect_of :: "pyval \<Rightarrow> pyval" where
  "selection_effect_of v = (if v = PNone then PSelection NoneSelection else v)"

definition resolved :: "theme \<Rightarrow> kwargs \<Rightarrow> kwargs" where
  "resolved th kw =
     [(''align'', given th kw ''align''),
      (''background_color'', given th kw ''background_color''),
      (''background_inflate'', given th kw ''background_inflate''),
      (''border_color'', given th kw ''border_color''),
      (''border_inflate'', given th kw ''border_inflate''),
      (''border_width'', given th kw ''border_width''),
      (''font_antialias'', widget_font_antialias th),
      (''font_background_color'', font_background th kw),
      (''font_color'', given th kw ''font_color''),
      (''font_name'', PStr (py_str (given th kw ''font_name''))),
      (''font_size'', given th kw ''font_size''),
      (''margin'', given th kw ''margin''),
      (''padding'', given th kw ''padding''),
      (''readonly_color'', given th kw ''readonly_color''),
      (''readonly_selected_color'', given th kw ''readonly_selected_color''),
      (''selection_color'', given th kw ''selection_color''),
      (''selection_effect'', selection_effect_of (given th kw ''selection_effect'')),
      (''shadow'', given th kw ''shadow''),
      (''shadow_color'', given th kw ''shadow_color''),
      (''shadow_position'', given th kw ''shadow_position''),
      (''shadow_offset'', given th kw ''shadow_offset'')]"

definition leftover :: "kwargs \<Rightarrow> kwargs" where
  "leftover kw = filter (\<lambda>p. fst p \<notin> set consumed_keys) kw"

definition accepted :: "env \<Rightarrow> theme \<Rightarrow> kwargs \<Rightarrow> bool" where
  "accepted env th kw =
     (is_str (given th kw ''align'')
      \<and> (flat_background th kw \<longrightarrow> assert_color env (given th kw ''background_color'') = None)
      \<and> assert_vector env (given th kw ''background_inflate'') 2 = None
      \<and> component_ge0 (given th kw ''background_inflate'') 0
      \<and> component_ge0 (given th kw ''background_inflate'') 1
      \<and> assert_color env (given th kw ''border_color'') = None
      \<and> assert_vector env (given th kw ''border_inflate'') 2 = None
      \<and> component_nat (given th kw ''border_inflate'') 0
      \<and> component_nat (given th kw ''border_inflate'') 1
      \<and> is_int (given th kw ''border_width'') \<and> 0 \<le> int_of (given th kw ''border_width'')
      \<and> (derives_font_background th kw \<longrightarrow> assert_color env (theme.background_color th) = None)
      \<and> assert_color env (given th kw ''font_color'') = None
      \<and> (is_str (given th kw ''font_name'') \<or> is_Path (given th kw ''font_name''))
      \<and> is_int (given th kw ''font_size'') \<and> 0 < int_of (given th kw ''font_size'')
      \<and> is_tuple (given th kw ''margin'') \<and> tuple_len (given th kw ''margin'') = 2
      \<and> (is_int (given th kw ''padding'') \<or> is_float (given th kw ''padding'')
           \<or> is_tuple (given th kw ''padding''))
      \<and> assert_color env (given th kw ''readonly_color'') = None
      \<and> assert_color env (given th kw ''readonly_selected_color'') = None
      \<and> assert_color env (given th kw ''selection_color'') = None
      \<and> (given th kw ''selection_effect'' = PNone \<or> is_Selection (given th kw ''selection_effect''))
      \<and> is_bool (given th kw ''shadow'')
      \<and> assert_color env (given th kw ''shadow_color'') = None
      \<and> is_str (given th kw ''shadow_position'')
      \<and> (is_int (given th kw ''shadow_offset'') \<or> is_float (given th kw ''shadow_offset'')))"

text \<open>
  The keys whose popped value goes into the bundle as it is. The other three popped keys
  are transformed on the way: \<^verbatim>\<open>font_name\<close> by \<^verbatim>\<open>str\<close>, \<^verbatim>\<open>selection_effect\<close> by
  replacing \<^verbatim>\<open>None\<close>, \<^verbatim>\<open>font_background_color\<close> by the rule on the menu background.
\<close>

definition plain_keys :: "string list" where
  "plain_keys =
     [''align'', ''background_color'', ''background_inflate'', ''border_color'',
      ''border_inflate'', ''border_width'', ''font_color'', ''font_size'', ''margin'',
      ''padding'', ''readonly_color'', ''readonly_selected_color'', ''selection_color'',
      ''shadow'', ''shadow_color'', ''shadow_position'', ''shadow_offset'']"

text \<open>
  The three stages of \<^verbatim>\<open>button\<close>, named so that each can be reasoned about alone:
  the replacement of the pygame quit events and of \<^verbatim>\<open>None\<close>, the construction of the
  widget for each kind of target, and the closed-set check with binding and registration.
  \<open>button_staged\<close> below shows that \<open>button\<close> is their composition. The mapping that
  reaches the resolver is the caller's without the four keys of \<^verbatim>\<open>button\<close> itself.
\<close>

definition button_action :: "env \<Rightarrow> action \<Rightarrow> action" where
  "button_action env action =
     (if action = ActInt (PYGAME_QUIT env) \<or> action = ActInt (PYGAME_WINDOWCLOSE env)
      then ActEvent EXIT
      else if action = ActNone then ActEvent NONE else action)"

definition button_dispatch :: "nat \<Rightarrow> string \<Rightarrow> action \<Rightarrow> pyval list \<Rightarrow> pyval \<Rightarrow> pyval \<Rightarrow> pyval \<Rightarrow> kwargs \<Rightarrow> store \<Rightarrow> widget outcome" where
  "button_dispatch self_menu title action args total_back button_id accept_kwargs kwargs =
     (case action of
         ActMenu target \<Rightarrow>
           sbind (\<lambda>st. pure (if target = self_menu \<or> in_submenu st target self_menu True
                             then Inl (ValueError (recursive_menu_msg (menu_title (st ! target))))
                             else Inr ()) st) (\<lambda>_.
           sbind (update_menu self_menu (\<lambda>m. m\<lparr>submenus := submenus m @ [target]\<rparr>)) (\<lambda>_.
           pure (Inr ((Widget Button title (py_str button_id) (MenuOpen target) PNone [])
                        \<lparr>to_menu := True\<rparr>))))
       | ActEvent BACK \<Rightarrow>
           pure (Inr (Widget Button title (py_str button_id) (MenuReset (int_of total_back)) PNone []))
       | ActEvent CLOSE \<Rightarrow>
           pure (Inr (Widget Button title (py_str button_id) MenuClose PNone []))
       | ActEvent EXIT \<Rightarrow>
           pure (Inr (Widget Button title (py_str button_id) MenuExit PNone []))
       | ActEvent NONE \<Rightarrow>
           pure (Inr (Widget Button title (py_str button_id) NoCallback PNone []))
       | ActEvent RESET \<Rightarrow>
           pure (Inr (Widget Button title (py_str button_id) MenuFullReset PNone []))
       | ActCallable f \<Rightarrow>
           (if \<not> bool_of accept_kwargs
            then pure (Inr (Widget Button title (py_str button_id) (Call f args []) PNone []))
            else pure (Inr (Widget Button title (py_str button_id) (Call f args kwargs) PNone kwargs)))
       | _ \<Rightarrow>
           pure (Inl (ValueError
             ''action must be a Menu, a MenuAction (event), a function (callable), or None'')))"

definition button_finish :: "nat \<Rightarrow> pyval \<Rightarrow> kwargs \<Rightarrow> kwargs \<Rightarrow> pyval \<Rightarrow> widget \<Rightarrow> store \<Rightarrow> widget outcome" where
  "button_finish self_menu accept_kwargs kwargs attributes onselect widget =
     sbind (if \<not> bool_of accept_kwargs then pure (check_kwargs kwargs) else pure (Inr ())) (\<lambda>_.
     sbind (\<lambda>st. pure (configure_widget st self_menu widget attributes) st) (\<lambda>widget.
     let widget = widget\<lparr>selection_callback := onselect\<rparr> in
     append_widget self_menu widget))"

definition button_kwargs :: "kwargs \<Rightarrow> kwargs" where
  "button_kwargs kwargs =
     kw_delete ''onselect'' (kw_delete ''accept_kwargs'' (kw_delete ''button_id''
       (kw_delete ''back_count'' kwargs)))"


text \<open>
  The container after \<^verbatim>\<open>_append_widget\<close> has run on it: the widget at the end of the
  list, selected if nothing was selected and it is selectable, one more insertion
  counted, the cached surface dropped and a re-render requested.
\<close>

definition appended :: "menu \<Rightarrow> widget \<Rightarrow> menu" where
  "appended m w =
     (if index m < 0 \<and> is_selectable w
      then m\<lparr>widgets := widgets m @ [w\<lparr>selected := True\<rparr>], index := int (length (widgets m)),
             added_widgets := added_widgets m + 1, widgets_surface := None,
             render_requests := render_requests m + 1\<rparr>
      else m\<lparr>widgets := widgets m @ [w],
             added_widgets := added_widgets m + 1, widgets_surface := None,
             render_requests := render_requests m + 1\<rparr>)"

section \<open>Instances for the examples\<close>

text \<open>
  Modelled from the spec: \<^verbatim>\<open>pygame_menu.utils.assert_color\<close> and
  \<^verbatim>\<open>assert_vector\<close> are not under src. The spec asks that colors be well-formed color
  values; here a color is a tuple or list of three or four integers from 0 to 255, and a
  vector of a given length is a tuple or list of that many numbers.
\<close>

fun is_channel :: "pyval \<Rightarrow> bool" where
  "is_channel (PInt i) = (0 \<le> i \<and> i \<le> 255)"
| "is_channel v = False"

fun assert_color_spec :: "pyval \<Rightarrow> error option" where
  "assert_color_spec (PTuple xs) =
     (if (length xs = 3 \<or> length xs = 4) \<and> list_all is_channel xs then None
      else Some (AssertionError ''color''))"
| "assert_color_spec (PList xs) =
     (if (length xs = 3 \<or> length xs = 4) \<and> list_all is_channel xs then None
      else Some (AssertionError ''color''))"
| "assert_color_spec v = Some (AssertionError ''color'')"

fun assert_vector_spec :: "pyval \<Rightarrow> nat \<Rightarrow> error option" where
  "assert_vector_spec (PTuple xs) n =
     (if length xs = n \<and> list_all (\<lambda>x. is_int x \<or> is_float x) xs then None
      else Some (AssertionError ''vector''))"
| "assert_vector_spec (PList xs) n =
     (if length xs = n \<and> list_all (\<lambda>x. is_int x \<or> is_float x) xs then None
      else Some (AssertionError ''vector''))"
| "assert_vector_spec v n = Some (AssertionError ''vector'')"

definition rgb :: "int \<Rightarrow> int \<Rightarrow> int \<Rightarrow> pyval" where
  "rgb r g b = PTuple [PInt r, PInt g, PInt b]"

definition example_env :: env where
  "example_env =
     \<lparr> assert_color = assert_color_spec, assert_vector = assert_vector_spec,
       wrap = (\<lambda>t w. Inl (ValueError ''invalid width'')),
       probe_max_char = (\<lambda>t a. Inr 0),
       PYGAME_QUIT = 256, PYGAME_WINDOWCLOSE = 32787 \<rparr>"

definition example_theme :: theme where
  "example_theme =
     \<lparr> background_color = rgb 220 220 220,
       readonly_color = rgb 120 120 120,
       readonly_selected_color = rgb 190 190 190,
       selection_color = rgb 255 255 255,
       widget_alignment = PStr ''align-center'',
       widget_background_color = PNone,
       widget_background_inflate = PTuple [PInt 0, PInt 0],
       widget_border_color = rgb 0 0 0,
       widget_border_inflate = PTuple [PInt 0, PInt 0],
       widget_border_width = PInt 0,
       widget_font = PStr ''opensans.ttf'',
       widget_font_antialias = PBool True,
       widget_font_background_color = PNone,
       widget_font_background_color_from_menu = False,
       widget_font_color = rgb 70 70 70,
       widget_font_size = PInt 30,
       widget_margin = PTuple [PInt 0, PInt 10],
       widget_padding = PTuple [PInt 4, PInt 8],
       widget_selection_effect = PSelection (Selection 0),
       widget_shadow = PBool False,
       widget_shadow_color = rgb 0 0 0,
       widget_shadow_offset = PInt 2,
       widget_shadow_position = PStr ''position-northwest'' \<rparr>"

definition example_menu :: "string \<Rightarrow> menu" where
  "example_menu t =
     \<lparr> menu_title = t, get_theme = example_theme, widgets = [], submenus = [],
       index = -1, added_widgets = 0, widgets_surface = None, render_requests = 0 \<rparr>"

section \<open>Sequencing, mappings and the resolver\<close>

lemma bind_unit_Inr_iff: "bind (m :: error + unit) f = Inr r \<longleftrightarrow> m = Inr () \<and> f () = Inr r"
  by (cases m) (simp_all add: bind_def)

lemma bind_Inr_iff: "bind m f = Inr r \<longleftrightarrow> (\<exists>x. m = Inr x \<and> f x = Inr r)"
  by (cases m) (simp_all add: bind_def)

lemma bind_Inr [simp]: "bind (Inr x) f = f x"
  by (simp add: bind_def)

lemma bind_Inl [simp]: "bind (Inl e) f = Inl e"
  by (simp add: bind_def)

lemma py_assert_Inr_iff: "py_assert b msg = Inr u \<longleftrightarrow> b"
  by (simp add: py_assert_def)

lemma py_assert_True [simp]: "py_assert True msg = Inr ()"
  by (simp add: py_assert_def)

lemma raise_opt_Inr_iff: "raise_opt r = Inr u \<longleftrightarrow> r = None"
  by (cases r) (simp_all add: raise_opt_def)

lemma raise_opt_None [simp]: "raise_opt None = Inr ()"
  by (simp add: raise_opt_def)

lemma kw_get_delete: "kw_get (kw_delete k' kw) k d = (if k = k' then d else kw_get kw k d)"
  by (induction kw) (auto simp: kw_get_def kw_delete_def)

lemma kw_delete_filter: "kw_delete k (filter P kw) = filter (\<lambda>p. P p \<and> fst p \<noteq> k) kw"
  by (simp add: kw_delete_def conj_commute)

lemma kw_delete_as_filter: "kw_delete k kw = filter (\<lambda>p. fst p \<noteq> k) kw"
  by (simp add: kw_delete_def)

lemma component_ge0_iff:
  "component_ge0 v i \<longleftrightarrow> (\<exists>b. py_index v i = Inr b \<and> py_ge0 b = Inr True)"
  by (cases "py_index v i") (simp_all add: component_ge0_def)

lemma component_nat_iff:
  "component_nat v i \<longleftrightarrow> (\<exists>b. py_index v i = Inr b \<and> is_int b \<and> 0 \<le> int_of b)"
  by (cases "py_index v i") (simp_all add: component_nat_def)

lemma leftover_eq:
  "leftover kw = kw_delete ''shadow_offset'' (kw_delete ''shadow_position'' (kw_delete ''shadow_color'' (kw_delete ''shadow'' (kw_delete ''selection_effect'' (kw_delete ''selection_color'' (kw_delete ''readonly_selected_color'' (kw_delete ''readonly_color'' (kw_delete ''padding'' (kw_delete ''margin'' (kw_delete ''font_size'' (kw_delete ''font_name'' (kw_delete ''font_color'' (kw_delete ''font_background_color'' (kw_delete ''border_width'' (kw_delete ''border_inflate'' (kw_delete ''border_color'' (kw_delete ''background_inflate'' (kw_delete ''background_color'' (kw_delete ''align'' kw)))))))))))))))))))"
  unfolding leftover_def consumed_keys_def kw_delete_def filter_filter
  by (rule filter_cong) auto

lemma given_simps:
  "kw_get kw ''align'' (widget_alignment th) = given th kw ''align''"
  "kw_get kw ''background_color'' (widget_background_color th) = given th kw ''background_color''"
  "kw_get kw ''background_inflate'' (widget_background_inflate th) = given th kw ''background_inflate''"
  "kw_get kw ''border_color'' (widget_border_color th) = given th kw ''border_color''"
  "kw_get kw ''border_inflate'' (widget_border_inflate th) = given th kw ''border_inflate''"
  "kw_get kw ''border_width'' (widget_border_width th) = given th kw ''border_width''"
  "kw_get kw ''font_background_color'' (widget_font_background_color th) = given th kw ''font_background_color''"
  "kw_get kw ''font_color'' (widget_font_color th) = given th kw ''font_color''"
  "kw_get kw ''font_name'' (widget_font th) = given th kw ''font_name''"
  "kw_get kw ''font_size'' (widget_font_size th) = given th kw ''font_size''"
  "kw_get kw ''margin'' (widget_margin th) = given th kw ''margin''"
  "kw_get kw ''padding'' (widget_padding th) = given th kw ''padding''"
  "kw_get kw ''readonly_color'' (theme.readonly_color th) = given th kw ''readonly_color''"
  "kw_get kw ''readonly_selected_color'' (theme.readonly_selected_color th) = given th kw ''readonly_selected_color''"
  "kw_get kw ''selection_color'' (theme.selection_color th) = given th kw ''selection_color''"
  "kw_get kw ''selection_effect'' (widget_selection_effect th) = given th kw ''selection_effect''"
  "kw_get kw ''shadow'' (widget_shadow th) = given th kw ''shadow''"
  "kw_get kw ''shadow_color'' (widget_shadow_color th) = given th kw ''shadow_color''"
  "kw_get kw ''shadow_position'' (widget_shadow_position th) = given th kw ''shadow_position''"
  "kw_get kw ''shadow_offset'' (widget_shadow_offset th) = given th kw ''shadow_offset''"
  by (simp_all add: given_def theme_default_def)

lemma background_block:
  "bind (if bc \<noteq> PNone then if is_BaseImage bc then Inr False
        else bind (raise_opt (assert_color env bc)) (\<lambda>_. Inr True)
     else Inr False) F = Inr r \<longleftrightarrow>
   (bc \<noteq> PNone \<and> \<not> is_BaseImage bc \<longrightarrow> assert_color env bc = None)
   \<and> F (bc \<noteq> PNone \<and> \<not> is_BaseImage bc) = Inr r"
  by (cases "assert_color env bc") (auto simp: raise_opt_def)

lemma font_background_block:
  "bind (if fbc = PNone \<and> flag \<and> \<not> bic
      then if is_tuple tb then bind (raise_opt (assert_color env tb)) (\<lambda>_. Inr tb) else Inr PNone
      else Inr fbc) F = Inr r \<longleftrightarrow>
   ((fbc = PNone \<and> flag \<and> \<not> bic \<and> is_tuple tb \<longrightarrow> assert_color env tb = None)
    \<and> F (if (fbc = PNone \<and> flag \<and> \<not> bic) \<and> is_tuple tb then tb else fbc) = Inr r)"
  by (cases "assert_color env tb") (auto simp: raise_opt_def)

lemma ge0_block:
  "bind (py_index v 0) (\<lambda>b0. bind (py_ge0 b0) (\<lambda>c0.
     bind (if c0 then bind (py_index v 1) py_ge0 else Inr False) (\<lambda>c1.
     bind (py_assert (c0 \<and> c1) msg) (\<lambda>_. K)))) = Inr r \<longleftrightarrow>
   component_ge0 v 0 \<and> component_ge0 v 1 \<and> K = Inr r"
proof (cases "py_index v 0")
  case (Inl e)
  then show ?thesis by (simp add: component_ge0_def)
next
  case b0: (Inr b0)
  show ?thesis
  proof (cases "py_ge0 b0")
    case (Inl e)
    with b0 show ?thesis by (simp add: component_ge0_def)
  next
    case c0: (Inr c0)
    show ?thesis
    proof (cases c0)
      case False
      with b0 c0 show ?thesis by (simp add: component_ge0_def py_assert_def)
    next
      case True
      with b0 c0 show ?thesis
        by (cases "bind (py_index v 1) py_ge0") (auto simp add: component_ge0_def py_assert_def)
    qed
  qed
qed

lemma nat_block:
  "bind (py_index v i) (\<lambda>x. bind (py_assert (is_int x \<and> 0 \<le> int_of x) msg) (\<lambda>_. K)) = Inr r \<longleftrightarrow>
   component_nat v i \<and> K = Inr r"
  by (cases "py_index v i") (auto simp add: component_nat_def py_assert_def)

lemma assert_block:
  "bind (py_assert b msg) (\<lambda>_. K) = Inr r \<longleftrightarrow> b \<and> K = Inr r"
  by (simp add: py_assert_def)

lemma raise_block:
  "bind (raise_opt x) (\<lambda>_. K) = Inr r \<longleftrightarrow> x = None \<and> K = Inr r"
  by (cases x) (simp_all add: raise_opt_def)

lemma is_Selection_effect:
  "is_Selection (if v = PNone then PSelection NoneSelection else v) \<longleftrightarrow> v = PNone \<or> is_Selection v"
  by simp

lemma filter_widget_attributes_Inr_iff:
  "filter_widget_attributes env th kw = Inr (attrs, kw') \<longleftrightarrow>
     accepted env th kw \<and> attrs = resolved th kw \<and> kw' = leftover kw"
  unfolding filter_widget_attributes_def Let_def pop_def prod.case leftover_eq
  apply (simp only: kw_get_delete list.simps char.inject simp_thms if_False if_True cong: if_cong)
  apply (simp only: dict_set_def AList.update.simps fst_conv list.simps char.inject simp_thms if_False if_True given_simps)
  apply (simp only: background_block font_background_block ge0_block nat_block assert_block raise_block sum.inject prod.inject)
  apply (simp only: accepted_def resolved_def flat_background_def
      derives_font_background_def font_background_def selection_effect_of_def is_Selection_effect conj_assoc)
  apply (rule iffI)
   apply (elim conjE, intro conjI, (assumption | erule sym)+)
  apply (elim conjE, intro conjI, (assumption | erule sym)+)
  done

section \<open>Store-passing and registration\<close>

lemma pure_apply [simp]: "pure r st = (r, st)"
  by (simp add: pure_def)

lemma sbind_Inr: "m st = (Inr x, st') \<Longrightarrow> sbind m f st = f x st'"
  by (simp add: sbind_def)

lemma sbind_Inl: "m st = (Inl e, st') \<Longrightarrow> sbind m f st = (Inl e, st')"
  by (simp add: sbind_def)

lemma sbind_pure_Inr [simp]: "sbind (pure (Inr x)) f st = f x st"
  by (simp add: sbind_def)

lemma sbind_pure_Inl [simp]: "sbind (pure (Inl e)) f st = (Inl e, st)"
  by (simp add: sbind_def)

lemma sbind_read_Inr: "r st = Inr x \<Longrightarrow> sbind (\<lambda>st. pure (r st) st) f st = f x st"
  by (simp add: sbind_def)

lemma sbind_read_Inl: "r st = Inl e \<Longrightarrow> sbind (\<lambda>st. pure (r st) st) f st = (Inl e, st)"
  by (simp add: sbind_def)

lemma sbind_update_menu [simp]:
  "sbind (update_menu m g) f st = f () (st[m := g (st ! m)])"
  by (simp add: sbind_def update_menu_def)

lemma py_assert_False [simp]: "py_assert False msg = Inl (AssertionError msg)"
  by (simp add: py_assert_def)

lemma append_widget_eq:
  assumes "self_menu < length st" and "get_menu w = Some self_menu"
  shows "append_widget self_menu w st =
           (Inr (last (widgets (appended (st ! self_menu) w))), st[self_menu := appended (st ! self_menu) w])"
  using assms
  by (simp add: append_widget_def appended_def select_last_def render_def update_menu_def sbind_def)

lemma append_widget_wrong_menu:
  assumes "get_menu w \<noteq> Some self_menu"
  shows "append_widget self_menu w st =
           (Inl (AssertionError ''widget cannot have a different instance of menu''), st)"
  using assms by (simp add: append_widget_def)

section \<open>Claims\<close>

text \<open>
  C3. Appending a widget to a container whose selection index is negative selects the
  widget if it is selectable, and then the selection index is the widget's position
  (the old length of the widget list); a widget that is not selectable leaves the index
  negative, so the first selectable widget appended is the one selected. Once the index
  is non-negative, appending any widget, selectable or not, leaves the index as it is.
  The widget must be bound to this container, which \<^verbatim>\<open>_append_widget\<close> asserts.
\<close>

theorem append_widget_selection:
  assumes "self_menu < length st" and "get_menu w = Some self_menu"
  shows "\<exists>w' st'. append_widget self_menu w st = (Inr w', st') \<and>
     (if index (st ! self_menu) < 0 \<and> is_selectable w
      then index (st' ! self_menu) = int (length (widgets (st ! self_menu)))
         \<and> widgets (st' ! self_menu) = widgets (st ! self_menu) @ [w\<lparr>selected := True\<rparr>]
         \<and> w' = w\<lparr>selected := True\<rparr>
      else index (st' ! self_menu) = index (st ! self_menu)
         \<and> widgets (st' ! self_menu) = widgets (st ! self_menu) @ [w]
         \<and> w' = w)"
  using assms by (simp add: append_widget_eq appended_def)

theorem append_widget_selection_witness:
  "\<exists>w' st'. append_widget 0 ((Widget Button ''Play'' ''play'' NoCallback PNone [])\<lparr>get_menu := Some 0\<rparr>)
        [example_menu ''main''] = (Inr w', st')
     \<and> index (st' ! 0) = 0
     \<and> widgets (st' ! 0) = [(Widget Button ''Play'' ''play'' NoCallback PNone [])\<lparr>get_menu := Some 0, selected := True\<rparr>]
     \<and> selected w'"
  using append_widget_selection [of 0 "[example_menu ''main'']"
      "(Widget Button ''Play'' ''play'' NoCallback PNone [])\<lparr>get_menu := Some 0\<rparr>"]
  by (auto simp add: example_menu_def Widget_def)

text \<open>
  C1. As stated the claim fails: with the Theme's derive-from-menu flag set, an omitted
  \<^verbatim>\<open>font_background_color\<close> resolves to the menu background and not to the Theme's
  default for the key (\<^verbatim>\<open>None\<close>); an omitted \<^verbatim>\<open>selection_effect\<close> whose Theme
  default is \<^verbatim>\<open>None\<close> resolves to a \<^verbatim>\<open>NoneSelection\<close> object; a \<^verbatim>\<open>font_name\<close>
  supplied as a \<^verbatim>\<open>Path\<close> is carried as its string; and a supplied
  \<^verbatim>\<open>font_antialias\<close> is ignored (and left in the mapping), the bundle carrying the
  Theme's value.
\<close>

theorem resolver_default_override_counterexample:
  "filter_widget_attributes example_env
      (example_theme\<lparr>widget_font_background_color_from_menu := True,
                      widget_selection_effect := PNone\<rparr>)
      [(''font_name'', PPath ''x.ttf''), (''font_antialias'', PBool False)]
   = Inr ([(''align'', PStr ''align-center''),
           (''background_color'', PNone),
           (''background_inflate'', PTuple [PInt 0, PInt 0]),
           (''border_color'', PTuple [PInt 0, PInt 0, PInt 0]),
           (''border_inflate'', PTuple [PInt 0, PInt 0]),
           (''border_width'', PInt 0),
           (''font_antialias'', PBool True),
           (''font_background_color'', PTuple [PInt 220, PInt 220, PInt 220]),
           (''font_color'', PTuple [PInt 70, PInt 70, PInt 70]),
           (''font_name'', PStr ''x.ttf''),
           (''font_size'', PInt 30),
           (''margin'', PTuple [PInt 0, PInt 10]),
           (''padding'', PTuple [PInt 4, PInt 8]),
           (''readonly_color'', PTuple [PInt 120, PInt 120, PInt 120]),
           (''readonly_selected_color'', PTuple [PInt 190, PInt 190, PInt 190]),
           (''selection_color'', PTuple [PInt 255, PInt 255, PInt 255]),
           (''selection_effect'', PSelection NoneSelection),
           (''shadow'', PBool False),
           (''shadow_color'', PTuple [PInt 0, PInt 0, PInt 0]),
           (''shadow_position'', PStr ''position-northwest''),
           (''shadow_offset'', PInt 2)],
          [(''font_antialias'', PBool False)])
   \<and> widget_font_background_color
        (example_theme\<lparr>widget_font_background_color_from_menu := True,
                        widget_selection_effect := PNone\<rparr>) = PNone"
  by code_simp

text \<open>
  C1, amended. When resolution succeeds, every key among \<open>plain_keys\<close> carries the
  Theme's default if the mapping omits the key and the supplied value if the mapping has
  it. \<^verbatim>\<open>font_name\<close> carries the string form of that value, \<^verbatim>\<open>selection_effect\<close>
  carries it with \<^verbatim>\<open>None\<close> replaced by a \<^verbatim>\<open>NoneSelection\<close> object,
  \<^verbatim>\<open>font_background_color\<close> carries it unless the menu background is copied instead,
  and \<^verbatim>\<open>font_antialias\<close> always carries the Theme's value.
\<close>

theorem resolver_default_override:
  assumes "filter_widget_attributes env th kw = Inr (attributes, kw')"
  shows "(\<forall>k \<in> set plain_keys.
            (map_of kw k = None \<longrightarrow> map_of attributes k = Some (theme_default th k))
          \<and> (\<forall>v. map_of kw k = Some v \<longrightarrow> map_of attributes k = Some v))
       \<and> map_of attributes ''font_name'' = Some (PStr (py_str (given th kw ''font_name'')))
       \<and> map_of attributes ''selection_effect'' =
            Some (if given th kw ''selection_effect'' = PNone then PSelection NoneSelection
                  else given th kw ''selection_effect'')
       \<and> map_of attributes ''font_background_color'' =
            Some (if derives_font_background th kw then theme.background_color th
                  else given th kw ''font_background_color'')
       \<and> map_of attributes ''font_antialias'' = Some (widget_font_antialias th)"
proof -
  from assms have a: "attributes = resolved th kw"
    by (simp add: filter_widget_attributes_Inr_iff)
  have plain: "\<forall>k \<in> set plain_keys. map_of (resolved th kw) k = Some (given th kw k)"
    by (simp add: plain_keys_def resolved_def)
  have split: "(map_of kw k = None \<longrightarrow> given th kw k = theme_default th k)
       \<and> (\<forall>v. map_of kw k = Some v \<longrightarrow> given th kw k = v)" for k
    by (simp add: given_def kw_get_def)
  show ?thesis
    unfolding a using plain split
    by (simp add: resolved_def font_background_def selection_effect_of_def)
qed

theorem resolver_default_override_witness:
  "map_of (resolved example_theme [(''font_size'', PInt 12)]) ''font_size'' = Some (PInt 12)
   \<and> map_of (resolved example_theme [(''font_size'', PInt 12)]) ''margin''
        = Some (PTuple [PInt 0, PInt 10])"
proof -
  have ok: "filter_widget_attributes example_env example_theme [(''font_size'', PInt 12)]
      = Inr (resolved example_theme [(''font_size'', PInt 12)], [])"
    by code_simp
  have keys: "''font_size'' \<in> set plain_keys" "''margin'' \<in> set plain_keys"
    by (simp_all add: plain_keys_def)
  from resolver_default_override [OF ok] keys show ?thesis
    by (simp add: theme_default_def example_theme_def)
qed

text \<open>
  C6. As stated the claim fails in both directions. A margin with negative components
  and a negative padding are accepted, and so is a padding tuple of three elements:
  the resolver checks neither the sign of margin and padding nor the length of a padding
  tuple. A scalar margin and a margin of four elements, which the claim accepts, are
  refused: the margin must be a tuple of exactly two elements.
\<close>

theorem resolver_validation_counterexample:
  "filter_widget_attributes example_env example_theme [(''margin'', PTuple [PInt (-1), PInt (-1)])]
     = Inr (resolved example_theme [(''margin'', PTuple [PInt (-1), PInt (-1)])], [])
   \<and> filter_widget_attributes example_env example_theme [(''padding'', PInt (-3))]
     = Inr (resolved example_theme [(''padding'', PInt (-3))], [])
   \<and> filter_widget_attributes example_env example_theme
        [(''padding'', PTuple [PInt 1, PInt 2, PInt 3])]
     = Inr (resolved example_theme [(''padding'', PTuple [PInt 1, PInt 2, PInt 3])], [])
   \<and> filter_widget_attributes example_env example_theme [(''margin'', PInt 5)]
     = Inl (AssertionError [])
   \<and> filter_widget_attributes example_env example_theme
        [(''margin'', PTuple [PInt 1, PInt 2, PInt 3, PInt 4])]
     = Inl (AssertionError ''margin must be a tuple or list of 2 numbers'')"
  by code_simp

text \<open>
  C6, amended. Attribute resolution accepts an input exactly when all of the following
  hold of the values it resolves from (the caller's, else the Theme's): the alignment and
  the shadow position are strings; the background color is \<^verbatim>\<open>None\<close>, an image (exempt
  from color validation) or a valid color; the border, font, read-only, selection and
  shadow colors are valid colors, and so is the menu background when it is copied as font
  background; the background inflate is a vector of two numbers, both \<open>\<ge> 0\<close>; the border
  inflate is a vector of two non-negative integers; the border width is a non-negative
  integer; the font name is a string or a path; the font size is a positive integer; the
  margin is a tuple of exactly two elements; the padding is an integer, a float or a
  tuple; the selection effect is \<^verbatim>\<open>None\<close> or a selection object; the shadow switch is
  a boolean; the shadow offset is an integer or a float. Any other input raises.
\<close>

theorem resolver_validation:
  "(\<exists>r. filter_widget_attributes env th kw = Inr r) \<longleftrightarrow> accepted env th kw"
proof
  assume "\<exists>r. filter_widget_attributes env th kw = Inr r"
  then obtain a k where "filter_widget_attributes env th kw = Inr (a, k)"
    by (metis surj_pair)
  then show "accepted env th kw"
    by (simp add: filter_widget_attributes_Inr_iff)
next
  assume "accepted env th kw"
  then have "filter_widget_attributes env th kw = Inr (resolved th kw, leftover kw)"
    by (simp add: filter_widget_attributes_Inr_iff)
  then show "\<exists>r. filter_widget_attributes env th kw = Inr r" ..
qed

theorem resolver_validation_witness:
  "accepted example_env example_theme [(''border_width'', PInt 2)]
   \<and> \<not> accepted example_env example_theme [(''border_width'', PInt (-2))]
   \<and> \<not> accepted example_env example_theme [(''font_size'', PInt 0)]"
proof -
  have 1: "filter_widget_attributes example_env example_theme [(''border_width'', PInt 2)]
      = Inr (resolved example_theme [(''border_width'', PInt 2)], [])"
    by code_simp
  have 2: "filter_widget_attributes example_env example_theme [(''border_width'', PInt (-2))]
      = Inl (AssertionError [])"
    by code_simp
  have 3: "filter_widget_attributes example_env example_theme [(''font_size'', PInt 0)]
      = Inl (AssertionError ''font size must be greater than zero'')"
    by code_simp
  show ?thesis
    using resolver_validation [of example_env example_theme "[(''border_width'', PInt 2)]"]
      resolver_validation [of example_env example_theme "[(''border_width'', PInt (-2))]"]
      resolver_validation [of example_env example_theme "[(''font_size'', PInt 0)]"]
    by (simp add: 1 2 3)
qed

text \<open>
  C7. As stated the claim fails. With the flag set, no font background given by the
  caller and no widget background, a Theme whose own widget font background is a color
  keeps that color: the menu background is not copied. And a caller who passes
  \<^verbatim>\<open>None\<close> explicitly gets the menu background, which is neither the caller's value nor
  the Theme's widget default.
\<close>

theorem font_background_counterexample:
  "map_of (resolved (example_theme\<lparr>widget_font_background_color_from_menu := True,
                                     widget_font_background_color := rgb 10 10 10\<rparr>) [])
          ''font_background_color'' = Some (rgb 10 10 10)
   \<and> filter_widget_attributes example_env
        (example_theme\<lparr>widget_font_background_color_from_menu := True,
                        widget_font_background_color := rgb 10 10 10\<rparr>) []
      = Inr (resolved (example_theme\<lparr>widget_font_background_color_from_menu := True,
                                       widget_font_background_color := rgb 10 10 10\<rparr>) [], [])
   \<and> theme.background_color
        (example_theme\<lparr>widget_font_background_color_from_menu := True,
                        widget_font_background_color := rgb 10 10 10\<rparr>) = rgb 220 220 220
   \<and> map_of (resolved (example_theme\<lparr>widget_font_background_color_from_menu := True\<rparr>)
                [(''font_background_color'', PNone)])
          ''font_background_color'' = Some (rgb 220 220 220)
   \<and> filter_widget_attributes example_env
        (example_theme\<lparr>widget_font_background_color_from_menu := True\<rparr>)
        [(''font_background_color'', PNone)]
      = Inr (resolved (example_theme\<lparr>widget_font_background_color_from_menu := True\<rparr>)
                [(''font_background_color'', PNone)], [])"
  by code_simp

text \<open>
  C7, amended. When resolution succeeds, the font background of the bundle is the menu
  Theme's background color exactly in this case: the font background resolved from the
  caller's value or else the Theme's widget default is \<^verbatim>\<open>None\<close>, the Theme's flag is
  set, the widget's own background is \<^verbatim>\<open>None\<close> or an image, and the menu background is
  a tuple. In every other case it is the caller's value if the mapping has the key, and
  the Theme's widget default otherwise.
\<close>

theorem font_background_rule:
  assumes "filter_widget_attributes env th kw = Inr (attributes, kw')"
  shows "map_of attributes ''font_background_color'' =
     Some (if given th kw ''font_background_color'' = PNone
              \<and> widget_font_background_color_from_menu th
              \<and> (given th kw ''background_color'' = PNone
                    \<or> is_BaseImage (given th kw ''background_color''))
              \<and> is_tuple (theme.background_color th)
           then theme.background_color th
           else (case map_of kw ''font_background_color'' of
                   Some v \<Rightarrow> v | None \<Rightarrow> widget_font_background_color th))"
proof -
  from assms have a: "attributes = resolved th kw"
    by (simp add: filter_widget_attributes_Inr_iff)
  have g: "given th kw ''font_background_color'' =
      (case map_of kw ''font_background_color'' of
         Some v \<Rightarrow> v | None \<Rightarrow> widget_font_background_color th)"
    by (simp add: given_def kw_get_def theme_default_def)
  have "map_of (resolved th kw) ''font_background_color'' = Some (font_background th kw)"
    by (simp add: resolved_def)
  then show ?thesis
    unfolding a
    by (auto simp add: font_background_def derives_font_background_def flat_background_def g)
qed

theorem font_background_rule_witness:
  "map_of (resolved (example_theme\<lparr>widget_font_background_color_from_menu := True\<rparr>) [])
      ''font_background_color'' = Some (rgb 220 220 220)"
proof -
  have ok: "filter_widget_attributes example_env
        (example_theme\<lparr>widget_font_background_color_from_menu := True\<rparr>) []
      = Inr (resolved (example_theme\<lparr>widget_font_background_color_from_menu := True\<rparr>) [], [])"
    by code_simp
  from font_background_rule [OF ok] show ?thesis
    by (simp add: given_def kw_get_def theme_default_def example_theme_def rgb_def)
qed

section \<open>The factories step by step\<close>

lemma resolver_accepts_example: "accepted example_env example_theme []"
proof -
  have "filter_widget_attributes example_env example_theme [] = Inr (resolved example_theme [], [])"
    by code_simp
  then show ?thesis
    by (simp add: filter_widget_attributes_Inr_iff)
qed

lemma configure_widget_Inr_iff:
  "configure_widget st self_menu w a = Inr w' \<longleftrightarrow>
     get_menu w = None \<and> get_id w \<notin> set (map get_id (widgets (st ! self_menu)))
     \<and> w' = w\<lparr>get_menu := Some self_menu, style := a, controls := Some self_menu\<rparr>"
  by (auto simp add: configure_widget_def check_id_duplicated_def py_assert_def bind_def Let_def)

lemma configure_widget_duplicate:
  "get_menu w = None \<Longrightarrow> get_id w \<in> set (map get_id (widgets (st ! self_menu))) \<Longrightarrow>
     configure_widget st self_menu w a = Inl (IndexError (get_id w))"
  by (simp add: configure_widget_def check_id_duplicated_def Let_def)

lemma configure_widget_menu:
  "configure_widget st self_menu w a = Inr w' \<Longrightarrow> get_menu w' = Some self_menu"
  by (auto simp add: configure_widget_Inr_iff)

lemma append_widget_succeeds:
  "get_menu w = Some self_menu \<Longrightarrow> \<exists>x st'. append_widget self_menu w st = (Inr x, st')"
  by (simp add: append_widget_def sbind_def update_menu_def)

lemma append_widget_not_Inl:
  "get_menu w = Some self_menu \<Longrightarrow> append_widget self_menu w st \<noteq> (Inl e, st')"
  using append_widget_succeeds [of w self_menu st] by auto

lemma image_error_unchanged:
  assumes "image env self_menu image_path angle image_id onselect scale scale_smooth selectable
             kwargs st = (Inl e, st')"
  shows "st' = st"
  using assms
  by (auto simp add: image_def Let_def sbind_def append_widget_not_Inl
        dest!: configure_widget_menu split: sum.splits prod.splits)

lemma text_input_error_unchanged:
  assumes "text_input env self_menu title default' options onselect password textinput_id
             kwargs st = (Inl e, st')"
  shows "st' = st"
  using assms
  by (auto simp add: text_input_def Let_def sbind_def pop_def append_widget_not_Inl
        dest!: configure_widget_menu split: sum.splits prod.splits if_splits)

lemma get_theme_appended [simp]: "get_theme (appended m w) = get_theme m"
  by (simp add: appended_def)

lemma ids_appended [simp]:
  "map get_id (widgets (appended m w)) = map get_id (widgets m) @ [get_id w]"
  by (simp add: appended_def)

lemma last_appended_fields [simp]:
  "get_id (last (widgets (appended m w))) = get_id w"
  "get_title (last (widgets (appended m w))) = get_title w"
  "kind (last (widgets (appended m w))) = kind w"
  "get_menu (last (widgets (appended m w))) = get_menu w"
  by (simp_all add: appended_def)

lemma button_staged:
  "button env self_menu title action args kwargs =
    (let (total_back, kwargs) = pop ''back_count'' (PInt 1) kwargs in
     sbind (pure (py_assert (is_int total_back \<and> 1 \<le> int_of total_back) [])) (\<lambda>_.
     let (button_id, kwargs) = pop ''button_id'' (PStr []) kwargs in
     sbind (pure (py_assert (is_str button_id) ''id must be a string'')) (\<lambda>_.
     let (accept_kwargs, kwargs) = pop ''accept_kwargs'' (PBool False) kwargs in
     sbind (pure (py_assert (is_bool accept_kwargs) [])) (\<lambda>_.
     let (onselect, kwargs) = pop ''onselect'' PNone kwargs in
     sbind (\<lambda>st. pure (filter_widget_attributes env (get_theme (st ! self_menu)) kwargs) st)
       (\<lambda>(attributes, kwargs).
     sbind (button_dispatch self_menu title (button_action env action) args
              total_back button_id accept_kwargs kwargs)
       (button_finish self_menu accept_kwargs kwargs attributes onselect))))))"
  unfolding button_def button_dispatch_def button_finish_def button_action_def Let_def
  by (rule refl)

lemma button_dispatch_result:
  assumes "button_dispatch self_menu title action args total_back button_id accept_kwargs kwargs st
             = (r, st')"
  shows "(\<forall>w. r = Inr w \<longrightarrow> get_menu w = None \<and> get_id w = py_str button_id \<and> kind w = Button)
       \<and> widgets (st' ! self_menu) = widgets (st ! self_menu)
       \<and> index (st' ! self_menu) = index (st ! self_menu)
       \<and> added_widgets (st' ! self_menu) = added_widgets (st ! self_menu)
       \<and> get_theme (st' ! self_menu) = get_theme (st ! self_menu)
       \<and> length st' = length st
       \<and> ((\<forall>t. action \<noteq> ActMenu t) \<longrightarrow> st' = st)
       \<and> ((\<exists>e. r = Inl e) \<longrightarrow> st' = st)"
proof (cases action)
  case (ActMenu target)
  with assms show ?thesis
    by (cases "self_menu < length st")
       (auto simp add: button_dispatch_def sbind_def update_menu_def Widget_def not_less
          list_update_beyond split: if_splits)
next
  case (ActEvent ev)
  with assms show ?thesis
    by (cases ev) (auto simp add: button_dispatch_def Widget_def)
next
  case (ActCallable f)
  with assms show ?thesis
    by (auto simp add: button_dispatch_def Widget_def split: if_splits)
qed (use assms in \<open>auto simp add: button_dispatch_def\<close>)

lemma button_finish_error:
  assumes "get_menu w = None"
    and "button_finish self_menu accept_kwargs kwargs attributes onselect w st = (Inl e, st')"
  shows "st' = st"
  using assms
  by (auto simp add: button_finish_def sbind_def Let_def append_widget_not_Inl
        dest!: configure_widget_menu split: sum.splits prod.splits if_splits)

lemma button_error_unchanged:
  assumes "button env self_menu title action args kwargs st = (Inl e, st')"
  shows "widgets (st' ! self_menu) = widgets (st ! self_menu)
       \<and> index (st' ! self_menu) = index (st ! self_menu)
       \<and> added_widgets (st' ! self_menu) = added_widgets (st ! self_menu)
       \<and> ((\<forall>t. action \<noteq> ActMenu t) \<longrightarrow> st' = st)"
proof -
  have na: "\<forall>t. button_action env action \<noteq> ActMenu t" if "\<forall>t. action \<noteq> ActMenu t"
    using that by (auto simp add: button_action_def)
  obtain tb k1 where p1: "pop ''back_count'' (PInt 1) kwargs = (tb, k1)" by force
  obtain bid k2 where p2: "pop ''button_id'' (PStr []) k1 = (bid, k2)" by force
  obtain ak k3 where p3: "pop ''accept_kwargs'' (PBool False) k2 = (ak, k3)" by force
  obtain os k4 where p4: "pop ''onselect'' PNone k3 = (os, k4)" by force
  show ?thesis
  proof (cases "is_int tb \<and> 1 \<le> int_of tb \<and> is_str bid \<and> is_bool ak")
    case False
    with assms have "st' = st"
      by (auto simp add: button_staged p1 p2 p3 p4 sbind_def py_assert_def split: if_splits)
    then show ?thesis by simp
  next
    case ok: True
    show ?thesis
    proof (cases "filter_widget_attributes env (get_theme (st ! self_menu)) k4")
      case (Inl e')
      with assms ok have "st' = st"
        by (simp add: button_staged p1 p2 p3 p4 sbind_def)
      then show ?thesis by simp
    next
      case (Inr r)
      obtain a kw' where r: "r = (a, kw')" by force
      obtain d st1 where disp: "button_dispatch self_menu title (button_action env action) args
              tb bid ak kw' st = (d, st1)" by force
      note res = button_dispatch_result [OF disp]
      show ?thesis
      proof (cases d)
        case (Inl e')
        with assms ok Inr r disp have "st' = st1"
          by (simp add: button_staged p1 p2 p3 p4 sbind_def)
        with res na show ?thesis by auto
      next
        case w: (Inr w)
        with assms ok Inr r disp
        have "button_finish self_menu ak kw' a os w st1 = (Inl e, st')"
          by (simp add: button_staged p1 p2 p3 p4 sbind_def)
        with res w have "st' = st1"
          using button_finish_error by blast
        with res na show ?thesis by auto
      qed
    qed
  qed
qed

lemma button_resolved:
  assumes "is_int (kw_get kwargs ''back_count'' (PInt 1))"
    and "1 \<le> int_of (kw_get kwargs ''back_count'' (PInt 1))"
    and "is_str (kw_get kwargs ''button_id'' (PStr []))"
    and "is_bool (kw_get kwargs ''accept_kwargs'' (PBool False))"
    and "accepted env (get_theme (st ! self_menu)) (button_kwargs kwargs)"
  shows "button env self_menu title action args kwargs st =
     sbind (button_dispatch self_menu title (button_action env action) args
              (kw_get kwargs ''back_count'' (PInt 1)) (kw_get kwargs ''button_id'' (PStr []))
              (kw_get kwargs ''accept_kwargs'' (PBool False)) (leftover (button_kwargs kwargs)))
       (button_finish self_menu (kw_get kwargs ''accept_kwargs'' (PBool False))
          (leftover (button_kwargs kwargs))
          (resolved (get_theme (st ! self_menu)) (button_kwargs kwargs))
          (kw_get kwargs ''onselect'' PNone)) st"
proof -
  have f: "filter_widget_attributes env (get_theme (st ! self_menu)) (button_kwargs kwargs)
      = Inr (resolved (get_theme (st ! self_menu)) (button_kwargs kwargs),
             leftover (button_kwargs kwargs))"
    using assms(5) by (simp add: filter_widget_attributes_Inr_iff)
  show ?thesis
    using assms(1-4) f
    by (simp add: button_staged pop_def Let_def kw_get_delete sbind_def
          button_kwargs_def [symmetric])
qed

lemma button_finish_ok:
  assumes "self_menu < length st" and "get_menu w = None"
    and "bool_of ak \<or> kw = []"
    and "get_id w \<notin> set (map get_id (widgets (st ! self_menu)))"
  shows "button_finish self_menu ak kw a os w st =
     (Inr (last (widgets (appended (st ! self_menu)
              (w\<lparr>get_menu := Some self_menu, style := a, controls := Some self_menu,
                 selection_callback := os\<rparr>)))),
      st[self_menu := appended (st ! self_menu)
              (w\<lparr>get_menu := Some self_menu, style := a, controls := Some self_menu,
                 selection_callback := os\<rparr>)])"
proof -
  have c: "configure_widget st self_menu w a =
      Inr (w\<lparr>get_menu := Some self_menu, style := a, controls := Some self_menu\<rparr>)"
    using assms(2,4) by (simp add: configure_widget_Inr_iff)
  have k: "(if \<not> bool_of ak then pure (check_kwargs kw) else pure (Inr ())) st = (Inr (), st)"
    using assms(3) by auto
  show ?thesis
    using assms(1) c k
    by (simp add: button_finish_def sbind_def Let_def append_widget_eq)
qed

lemma last_widgets_appended:
  "last (widgets (appended m w)) = (if index m < 0 \<and> is_selectable w then w\<lparr>selected := True\<rparr> else w)"
  by (simp add: appended_def)

lemma submenus_appended [simp]: "submenus (appended m w) = submenus m"
  by (simp add: appended_def)

text \<open>
  C5. Let the other arguments of \<^verbatim>\<open>button\<close> be in order: the keys of \<^verbatim>\<open>button\<close> itself
  are well typed, the style keys resolve, no key is left over unless
  \<^verbatim>\<open>accept_kwargs\<close> is set, and the button's ID is not in the container yet. Then a
  Menu target raises exactly when it is the container itself or the container is
  reachable from it along the submenu lists: in that case the call raises the error
  naming the target's title and changes nothing. Otherwise the call returns the button,
  which opens the target, the target is the last entry of the container's submenu list,
  and the button is the last entry of its widget list.
\<close>

theorem button_menu_cycle:
  assumes "self_menu < length st"
    and "is_int (kw_get kwargs ''back_count'' (PInt 1))"
    and "1 \<le> int_of (kw_get kwargs ''back_count'' (PInt 1))"
    and "is_str (kw_get kwargs ''button_id'' (PStr []))"
    and "is_bool (kw_get kwargs ''accept_kwargs'' (PBool False))"
    and "accepted env (get_theme (st ! self_menu)) (button_kwargs kwargs)"
    and "bool_of (kw_get kwargs ''accept_kwargs'' (PBool False))
           \<or> leftover (button_kwargs kwargs) = []"
    and "py_str (kw_get kwargs ''button_id'' (PStr []))
           \<notin> set (map get_id (widgets (st ! self_menu)))"
  shows "((\<exists>e. fst (button env self_menu title (ActMenu target) args kwargs st) = Inl e)
            \<longleftrightarrow> target = self_menu \<or> in_submenu st target self_menu True)
       \<and> (target = self_menu \<or> in_submenu st target self_menu True \<longrightarrow>
            button env self_menu title (ActMenu target) args kwargs st
              = (Inl (ValueError (recursive_menu_msg (menu_title (st ! target)))), st))
       \<and> (\<not> (target = self_menu \<or> in_submenu st target self_menu True) \<longrightarrow>
            (\<exists>w st'. button env self_menu title (ActMenu target) args kwargs st = (Inr w, st')
               \<and> submenus (st' ! self_menu) = submenus (st ! self_menu) @ [target]
               \<and> widgets (st' ! self_menu) = widgets (st ! self_menu) @ [w]
               \<and> kind w = Button \<and> to_menu w \<and> callback w = MenuOpen target
               \<and> get_id w = py_str (kw_get kwargs ''button_id'' (PStr []))
               \<and> get_menu w = Some self_menu))"
proof -
  let ?cycle = "target = self_menu \<or> in_submenu st target self_menu True"
  let ?run = "button env self_menu title (ActMenu target) args kwargs st"
  note eq = button_resolved [OF assms(2-6), of title "ActMenu target" args]
  have act: "button_action env (ActMenu target) = ActMenu target"
    by (simp add: button_action_def)
  have yes: "?run = (Inl (ValueError (recursive_menu_msg (menu_title (st ! target)))), st)"
    if ?cycle
    using that by (simp add: eq act button_dispatch_def sbind_def)
  have no: "\<exists>w st'. ?run = (Inr w, st')
               \<and> submenus (st' ! self_menu) = submenus (st ! self_menu) @ [target]
               \<and> widgets (st' ! self_menu) = widgets (st ! self_menu) @ [w]
               \<and> kind w = Button \<and> to_menu w \<and> callback w = MenuOpen target
               \<and> get_id w = py_str (kw_get kwargs ''button_id'' (PStr []))
               \<and> get_menu w = Some self_menu"
    if nc: "\<not> ?cycle"
  proof -
    let ?st1 = "st[self_menu := (st ! self_menu)\<lparr>submenus := submenus (st ! self_menu) @ [target]\<rparr>]"
    let ?w = "(Widget Button title (py_str (kw_get kwargs ''button_id'' (PStr [])))
                 (MenuOpen target) PNone [])\<lparr>to_menu := True\<rparr>"
    have d: "button_dispatch self_menu title (ActMenu target) args
              (kw_get kwargs ''back_count'' (PInt 1)) (kw_get kwargs ''button_id'' (PStr []))
              (kw_get kwargs ''accept_kwargs'' (PBool False)) (leftover (button_kwargs kwargs)) st
            = (Inr ?w, ?st1)"
      using nc by (simp add: button_dispatch_def sbind_def update_menu_def)
    have l: "self_menu < length ?st1" using assms(1) by simp
    have m: "get_menu ?w = None" by (simp add: Widget_def)
    have i: "get_id ?w \<notin> set (map get_id (widgets (?st1 ! self_menu)))"
      using assms(1,8) by (simp add: Widget_def)
    note fin = button_finish_ok [OF l m assms(7) i,
        of "resolved (get_theme (st ! self_menu)) (button_kwargs kwargs)"
           "kw_get kwargs ''onselect'' PNone"]
    have run: "?run = button_finish self_menu (kw_get kwargs ''accept_kwargs'' (PBool False))
          (leftover (button_kwargs kwargs))
          (resolved (get_theme (st ! self_menu)) (button_kwargs kwargs))
          (kw_get kwargs ''onselect'' PNone) ?w ?st1"
      by (simp add: eq act sbind_def d)
    show ?thesis
      unfolding run fin using assms(1)
      by (simp add: last_widgets_appended Widget_def appended_def)
  qed
  have iff: "(\<exists>e. fst ?run = Inl e) \<longleftrightarrow> ?cycle"
  proof (cases ?cycle)
    case True
    then show ?thesis using yes by simp
  next
    case False
    with no obtain w st' where "?run = (Inr w, st')" by blast
    with False show ?thesis by simp
  qed
  from iff yes no show ?thesis by blast
qed

theorem button_menu_cycle_witness:
  "button example_env 0 ''Back to main'' (ActMenu 0) []
       [(''button_id'', PStr ''loop'')]
       [(example_menu ''main'')\<lparr>submenus := [1]\<rparr>, example_menu ''options'']
     = (Inl (ValueError (recursive_menu_msg ''main'')),
        [(example_menu ''main'')\<lparr>submenus := [1]\<rparr>, example_menu ''options''])
   \<and> fst (button example_env 1 ''Back to main'' (ActMenu 0) []
       [(''button_id'', PStr ''loop'')]
       [(example_menu ''main'')\<lparr>submenus := [1]\<rparr>, example_menu ''options''])
     = Inl (ValueError (recursive_menu_msg ''main''))
   \<and> (\<exists>w st'. button example_env 0 ''Options'' (ActMenu 1) []
         [(''button_id'', PStr ''options'')] [example_menu ''main'', example_menu ''options'']
           = (Inr w, st')
         \<and> submenus (st' ! 0) = [1] \<and> widgets (st' ! 0) = [w] \<and> get_id w = ''options'')"
proof -
  have a: "accepted example_env example_theme []"
    using resolver_accepts_example by simp
  have cyc: "in_submenu [(example_menu ''main'')\<lparr>submenus := [1]\<rparr>, example_menu ''options''] 0 1 True"
    by code_simp
  have nocyc: "\<not> in_submenu [example_menu ''main'', example_menu ''options''] 1 0 True"
    by code_simp
  show ?thesis
    using
      button_menu_cycle [where self_menu = 0 and target = 0 and env = example_env
        and st = "[(example_menu ''main'')\<lparr>submenus := [1]\<rparr>, example_menu ''options'']"
        and kwargs = "[(''button_id'', PStr ''loop'')]" and title = "''Back to main''" and args = "[]"]
      button_menu_cycle [where self_menu = 1 and target = 0 and env = example_env
        and st = "[(example_menu ''main'')\<lparr>submenus := [1]\<rparr>, example_menu ''options'']"
        and kwargs = "[(''button_id'', PStr ''loop'')]" and title = "''Back to main''" and args = "[]"]
      button_menu_cycle [where self_menu = 0 and target = 1 and env = example_env
        and st = "[example_menu ''main'', example_menu ''options'']"
        and kwargs = "[(''button_id'', PStr ''options'')]" and title = "''Options''" and args = "[]"]
      a cyc nocyc
    by (auto simp add: kw_get_def button_kwargs_def kw_delete_def leftover_def example_menu_def)
qed

text \<open>
  C9. \<^verbatim>\<open>text_input\<close> called with \<^verbatim>\<open>password=True\<close> and a default other than the empty
  string raises and leaves the container as it was; when the default has a permitted
  type and the style keys resolve, the error is the one about the password. Called with
  \<^verbatim>\<open>password=True\<close> and the empty string as default, with style keys that resolve
  and an ID that is not in the container yet, it returns the text input and the widget is
  the last entry of the container's widget list.
\<close>

theorem text_input_password:
  "(password \<and> default' \<noteq> PStr [] \<longrightarrow>
      (\<exists>e. text_input env self_menu title default' options onselect password textinput_id
              kwargs st = (Inl e, st)))
   \<and> (password \<and> default' \<noteq> PStr []
        \<and> (is_str default' \<or> is_int default' \<or> is_float default')
        \<and> accepted env (get_theme (st ! self_menu)) kwargs \<longrightarrow>
      text_input env self_menu title default' options onselect password textinput_id kwargs st
        = (Inl (ValueError ''default value must be empty if the input is a password''), st))
   \<and> (password \<and> default' = PStr [] \<and> self_menu < length st
        \<and> accepted env (get_theme (st ! self_menu)) kwargs
        \<and> textinput_id \<notin> set (map get_id (widgets (st ! self_menu))) \<longrightarrow>
      (\<exists>w st'. text_input env self_menu title default' options onselect password textinput_id
                  kwargs st = (Inr w, st')
         \<and> widgets (st' ! self_menu) = widgets (st ! self_menu) @ [w]
         \<and> kind w = TextInput \<and> get_id w = textinput_id \<and> default_value w = PStr []
         \<and> get_menu w = Some self_menu))"
proof (intro conjI impI)
  let ?run = "text_input env self_menu title default' options onselect password textinput_id
                kwargs st"
  {
    assume p: "password \<and> default' \<noteq> PStr []"
    show "\<exists>e. ?run = (Inl e, st)"
    proof (cases "filter_widget_attributes env (get_theme (st ! self_menu)) kwargs")
      case (Inl e)
      then show ?thesis
        by (cases "is_str default' \<or> is_int default' \<or> is_float default'")
           (simp_all add: text_input_def sbind_def)
    next
      case (Inr r)
      obtain a k where "r = (a, k)" by force
      with Inr p show ?thesis
        by (cases "is_str default' \<or> is_int default' \<or> is_float default'")
           (simp_all add: text_input_def sbind_def pop_def Let_def)
    qed
  }
  {
    assume p: "password \<and> default' \<noteq> PStr []
        \<and> (is_str default' \<or> is_int default' \<or> is_float default')
        \<and> accepted env (get_theme (st ! self_menu)) kwargs"
    then have f: "filter_widget_attributes env (get_theme (st ! self_menu)) kwargs
        = Inr (resolved (get_theme (st ! self_menu)) kwargs, leftover kwargs)"
      by (simp add: filter_widget_attributes_Inr_iff)
    from p show "?run
        = (Inl (ValueError ''default value must be empty if the input is a password''), st)"
      by (simp add: text_input_def sbind_def pop_def Let_def f)
  }
  {
    assume p: "password \<and> default' = PStr [] \<and> self_menu < length st
        \<and> accepted env (get_theme (st ! self_menu)) kwargs
        \<and> textinput_id \<notin> set (map get_id (widgets (st ! self_menu)))"
    then have f: "filter_widget_attributes env (get_theme (st ! self_menu)) kwargs
        = Inr (resolved (get_theme (st ! self_menu)) kwargs, leftover kwargs)"
      by (simp add: filter_widget_attributes_Inr_iff)
    let ?w = "Widget TextInput title textinput_id NoCallback onselect
            (options @ [(''input_underline_vmargin'',
                         kw_get (leftover kwargs) ''input_underline_vmargin'' (PInt 0)),
                        (''password'', PBool True)]
               @ kw_delete ''input_underline_vmargin'' (leftover kwargs))"
    have c: "configure_widget st self_menu ?w (resolved (get_theme (st ! self_menu)) kwargs)
        = Inr (?w\<lparr>get_menu := Some self_menu,
                   style := resolved (get_theme (st ! self_menu)) kwargs,
                   controls := Some self_menu\<rparr>)"
      using p by (simp add: configure_widget_Inr_iff Widget_def)
    from p show "\<exists>w st'. ?run = (Inr w, st')
         \<and> widgets (st' ! self_menu) = widgets (st ! self_menu) @ [w]
         \<and> kind w = TextInput \<and> get_id w = textinput_id \<and> default_value w = PStr []
         \<and> get_menu w = Some self_menu"
      by (simp add: text_input_def sbind_def pop_def Let_def f c append_widget_eq
            last_widgets_appended del: append_Cons append_Nil)
         (simp add: appended_def Widget_def)
  }
qed

theorem text_input_password_witness:
  "text_input example_env 0 ''Password'' (PStr ''x'') [] PNone True ''pw'' []
       [example_menu ''main'']
     = (Inl (ValueError ''default value must be empty if the input is a password''),
        [example_menu ''main''])
   \<and> (\<exists>w st'. text_input example_env 0 ''Password'' (PStr []) [] PNone True ''pw'' []
                  [example_menu ''main''] = (Inr w, st')
         \<and> widgets (st' ! 0) = [w] \<and> get_id w = ''pw'')"
  using text_input_password [where env = example_env and self_menu = 0 and default' = "PStr ''x''"
      and password = True and st = "[example_menu ''main'']" and kwargs = "[]"
      and title = "''Password''" and options = "[]" and onselect = PNone and textinput_id = "''pw''"]
    text_input_password [where env = example_env and self_menu = 0 and default' = "PStr []"
      and password = True and st = "[example_menu ''main'']" and kwargs = "[]"
      and title = "''Password''" and options = "[]" and onselect = PNone and textinput_id = "''pw''"]
    resolver_accepts_example
  by (auto simp add: example_menu_def)

section \<open>Labels\<close>

lemma py_split_no_sep: "sep \<notin> set s \<Longrightarrow> py_split sep s = [s]"
  by (induction s) auto

lemma py_split_first: "sep \<notin> set a \<Longrightarrow> py_split sep (a @ sep # b) = a # py_split sep b"
  by (induction a) auto

lemma py_split_two:
  "sep \<notin> set a \<Longrightarrow> sep \<notin> set b \<Longrightarrow> py_split sep (a @ sep # b) = [a, b]"
  by (simp add: py_split_first py_split_no_sep)

lemma str_nat_1_2: "str_nat (Suc 0) = ''1''" "str_nat (Suc (Suc 0)) = ''2''"
  by code_simp+

lemma label_single_eq:
  assumes "CHR 0x0A \<notin> set title" and "0 \<le> max_char"
    and "int (length title) \<le> max_char \<or> max_char = 0"
  shows "label (Suc d) env self_menu uuid title label_id max_char onselect selectable kwargs st =
     sbind (\<lambda>st. pure (filter_widget_attributes env (get_theme (st ! self_menu)) kwargs) st)
       (\<lambda>(attributes, kwargs).
     sbind (pure (check_kwargs kwargs)) (\<lambda>_.
     sbind (\<lambda>st. pure (configure_widget st self_menu
                 ((Widget Label title (if label_id = [] then uuid else label_id)
                     NoCallback onselect [])\<lparr>is_selectable := selectable\<rparr>) attributes) st)
       (\<lambda>widget.
     sbind (append_widget self_menu widget) (\<lambda>widget.
     pure (Inr (Single widget)))))) st"
proof -
  have "- 1 \<le> max_char" "\<not> max_char < 0" using assms(2) by simp_all
  then show ?thesis
    using assms(1,3) by (simp add: Let_def)
qed

lemma label_single_error_unchanged:
  assumes "CHR 0x0A \<notin> set title" and "0 \<le> max_char"
    and "int (length title) \<le> max_char \<or> max_char = 0"
    and "label (Suc d) env self_menu uuid title label_id max_char onselect selectable kwargs st
           = (Inl e, st')"
  shows "st' = st"
  using assms(4) unfolding label_single_eq [OF assms(1-3)]
  by (auto simp add: sbind_def append_widget_not_Inl
        dest!: configure_widget_menu split: sum.splits prod.splits)

lemma label_single_ok:
  assumes "CHR 0x0A \<notin> set title" and "0 \<le> max_char"
    and "int (length title) \<le> max_char \<or> max_char = 0"
    and "self_menu < length st"
    and "accepted env (get_theme (st ! self_menu)) kwargs"
    and "leftover kwargs = []"
    and "(if label_id = [] then uuid else label_id) \<notin> set (map get_id (widgets (st ! self_menu)))"
  shows "label (Suc d) env self_menu uuid title label_id max_char onselect selectable kwargs st =
     (Inr (Single (last (widgets (appended (st ! self_menu)
         ((Widget Label title (if label_id = [] then uuid else label_id) NoCallback onselect [])
            \<lparr>is_selectable := selectable, get_menu := Some self_menu,
               style := resolved (get_theme (st ! self_menu)) kwargs,
               controls := Some self_menu\<rparr>))))),
      st[self_menu := appended (st ! self_menu)
         ((Widget Label title (if label_id = [] then uuid else label_id) NoCallback onselect [])
            \<lparr>is_selectable := selectable, get_menu := Some self_menu,
               style := resolved (get_theme (st ! self_menu)) kwargs,
               controls := Some self_menu\<rparr>)])"
proof -
  let ?w = "(Widget Label title (if label_id = [] then uuid else label_id) NoCallback onselect [])
              \<lparr>is_selectable := selectable\<rparr>"
  have f: "filter_widget_attributes env (get_theme (st ! self_menu)) kwargs
      = Inr (resolved (get_theme (st ! self_menu)) kwargs, [])"
    using assms(5,6) by (simp add: filter_widget_attributes_Inr_iff)
  have c: "configure_widget st self_menu ?w (resolved (get_theme (st ! self_menu)) kwargs)
      = Inr (?w\<lparr>get_menu := Some self_menu,
                 style := resolved (get_theme (st ! self_menu)) kwargs,
                 controls := Some self_menu\<rparr>)"
    using assms(7) by (simp add: configure_widget_Inr_iff Widget_def)
  show ?thesis
    unfolding label_single_eq [OF assms(1-3)]
    using assms(4) by (simp add: sbind_def f c append_widget_eq)
qed

text \<open>
  C8. A title made of two lines, each short enough for \<^verbatim>\<open>max_char\<close> (or with
  \<^verbatim>\<open>max_char = 0\<close>), yields a list of two Label widgets: with base ID \<open>X\<close> (the given
  \<^verbatim>\<open>label_id\<close>, or the generated one when that is empty) the first has the ID
  \<open>X+1\<close> and the first line as its text, the second has the ID \<open>X+2\<close> and the second
  line, and they are appended to the container's widget list in this order. The style
  keys must resolve with nothing left over, and the two IDs must not be in the container
  yet. \<open>X+1\<close> is the string \<open>X\<close> followed by the characters \<^verbatim>\<open>+1\<close>.
\<close>

theorem label_two_lines:
  assumes "self_menu < length st"
    and "accepted env (get_theme (st ! self_menu)) kwargs" and "leftover kwargs = []"
    and "CHR 0x0A \<notin> set l1" and "CHR 0x0A \<notin> set l2"
    and "0 \<le> max_char"
    and "int (length l1) \<le> max_char \<or> max_char = 0"
    and "int (length l2) \<le> max_char \<or> max_char = 0"
    and "X = (if label_id = [] then uuid else label_id)"
    and "X @ ''+1'' \<notin> set (map get_id (widgets (st ! self_menu)))"
    and "X @ ''+2'' \<notin> set (map get_id (widgets (st ! self_menu)))"
  shows "\<exists>w1 w2 st'.
      label (Suc (Suc d)) env self_menu uuid (l1 @ [CHR 0x0A] @ l2) label_id max_char
          onselect selectable kwargs st = (Inr (Multiple [Single w1, Single w2]), st')
      \<and> get_id w1 = X @ ''+1'' \<and> get_title w1 = l1 \<and> kind w1 = Label
      \<and> get_id w2 = X @ ''+2'' \<and> get_title w2 = l2 \<and> kind w2 = Label
      \<and> widgets (st' ! self_menu) = widgets (st ! self_menu) @ [w1, w2]"
proof -
  let ?W = "\<lambda>t i s. (Widget Label t i NoCallback onselect [])
            \<lparr>is_selectable := selectable, get_menu := Some self_menu,
               style := resolved (get_theme (s ! self_menu)) kwargs,
               controls := Some self_menu\<rparr>"
  let ?st1 = "st[self_menu := appended (st ! self_menu) (?W l1 (X @ ''+1'') st)]"
  let ?st2 = "?st1[self_menu := appended (?st1 ! self_menu) (?W l2 (X @ ''+2'') ?st1)]"
  have id1: "(if X @ ''+1'' = [] then uuid else X @ ''+1'') = X @ ''+1''"
    and id2: "(if X @ ''+2'' = [] then uuid else X @ ''+2'') = X @ ''+2''"
    by simp_all
  have fresh1: "(if X @ ''+1'' = [] then uuid else X @ ''+1'')
        \<notin> set (map get_id (widgets (st ! self_menu)))"
    using assms(10) by simp
  have first: "label (Suc d) env self_menu uuid l1 (X @ ''+1'') max_char onselect selectable
        kwargs st
      = (Inr (Single (last (widgets (appended (st ! self_menu) (?W l1 (X @ ''+1'') st))))), ?st1)"
    using label_single_ok [OF assms(4,6,7,1,2,3) fresh1, of d onselect selectable]
    by (simp only: id1)
  have len1: "self_menu < length ?st1" using assms(1) by simp
  have th1: "get_theme (?st1 ! self_menu) = get_theme (st ! self_menu)"
    using assms(1) by simp
  have acc1: "accepted env (get_theme (?st1 ! self_menu)) kwargs"
    using assms(2) th1 by simp
  have fresh2: "(if X @ ''+2'' = [] then uuid else X @ ''+2'')
        \<notin> set (map get_id (widgets (?st1 ! self_menu)))"
    using assms(1,11) by (simp add: Widget_def)
  have second: "label (Suc d) env self_menu uuid l2 (X @ ''+2'') max_char onselect selectable
        kwargs ?st1
      = (Inr (Single (last (widgets (appended (?st1 ! self_menu) (?W l2 (X @ ''+2'') ?st1))))),
         ?st2)"
    using label_single_ok [OF assms(5,6,8) len1 acc1 assms(3) fresh2, of d onselect selectable]
    by (simp only: id2)
  have nl: "CHR 0x0A \<in> set (l1 @ [CHR 0x0A] @ l2)" by simp
  have m1: "- 1 \<le> max_char" using assms(6) by simp
  have run: "label (Suc (Suc d)) env self_menu uuid (l1 @ [CHR 0x0A] @ l2) label_id max_char
          onselect selectable kwargs st
      = (Inr (Multiple
            [Single (last (widgets (appended (st ! self_menu) (?W l1 (X @ ''+1'') st)))),
             Single (last (widgets (appended (?st1 ! self_menu) (?W l2 (X @ ''+2'') ?st1))))]),
         ?st2)"
    unfolding label.simps(2) [of "Suc d"] Let_def
    using nl m1 first second
    by (simp add: py_split_two [OF assms(4,5)] sbind_def str_nat_1_2 assms(9) [symmetric]
          del: label.simps)
  show ?thesis
    unfolding run using assms(1)
    by (simp add: Widget_def appended_def del: label.simps)
qed

theorem label_two_lines_witness:
  "\<exists>w1 w2 st'.
      label 2 example_env 0 ''generated'' (''a'' @ [CHR 0x0A] @ ''b'') ''X'' 0 PNone False []
          [example_menu ''main''] = (Inr (Multiple [Single w1, Single w2]), st')
      \<and> get_id w1 = ''X+1'' \<and> get_title w1 = ''a''
      \<and> get_id w2 = ''X+2'' \<and> get_title w2 = ''b''
      \<and> widgets (st' ! 0) = [w1, w2]"
  using label_two_lines [where self_menu = 0 and st = "[example_menu ''main'']"
      and env = example_env and kwargs = "[]" and ?l1.0 = "''a''" and ?l2.0 = "''b''"
      and max_char = 0 and X = "''X''" and label_id = "''X''" and uuid = "''generated''"
      and d = 0 and onselect = PNone and selectable = False]
    resolver_accepts_example
  by (auto simp add: example_menu_def leftover_def numeral_2_eq_2 simp del: label.simps)










section \<open>Leftover keys and failing calls\<close>


lemma check_kwargs_Cons: "check_kwargs ((k, v) # rest) = Inl (ValueError (check_kwargs_msg k))"
  by simp








text \<open>
  C4. As stated the claim fails. A label whose title has two lines registers the first
  line and then fails on the second when the second ID is already in the container: the
  call raises and the container has one widget more. And \<^verbatim>\<open>button\<close> with a Menu target
  appends the target to the submenu list before the closed-set check: the call raises on
  the unknown key \<^verbatim>\<open>colour\<close> and the submenu list has grown.
\<close>

theorem failed_call_counterexample:
  "fst (label 2 example_env 0 ''u'' (''a'' @ [CHR 0x0A] @ ''b'') ''X'' 0 PNone False []
          [(example_menu ''main'')\<lparr>widgets := [Widget Label ''old'' ''X+2'' NoCallback PNone []]\<rparr>])
      = Inl (IndexError ''X+2'')
   \<and> map get_id (widgets (snd (label 2 example_env 0 ''u'' (''a'' @ [CHR 0x0A] @ ''b'') ''X'' 0
          PNone False []
          [(example_menu ''main'')\<lparr>widgets := [Widget Label ''old'' ''X+2'' NoCallback PNone []]\<rparr>])
        ! 0))
      = [''X+2'', ''X+1'']
   \<and> added_widgets (snd (label 2 example_env 0 ''u'' (''a'' @ [CHR 0x0A] @ ''b'') ''X'' 0
          PNone False []
          [(example_menu ''main'')\<lparr>widgets := [Widget Label ''old'' ''X+2'' NoCallback PNone []]\<rparr>])
        ! 0)
      = 1
   \<and> button example_env 0 ''Options'' (ActMenu 1) [] [(''colour'', PInt 1)]
        [example_menu ''main'', example_menu ''options'']
     = (Inl (ValueError (check_kwargs_msg ''colour'')),
        [(example_menu ''main'')\<lparr>submenus := [1]\<rparr>, example_menu ''options''])"
  by code_simp

text \<open>
  C4, amended. A failing call of \<^verbatim>\<open>image\<close>, of \<^verbatim>\<open>text_input\<close>, of \<^verbatim>\<open>label\<close> on a
  title that is neither split nor wrapped, or of \<^verbatim>\<open>button\<close> with a target that is not
  a Menu leaves every container as it was: widget list, submenu list, selection index
  and insertion counter are unchanged. A failing call of \<^verbatim>\<open>button\<close> with a Menu target
  leaves the widget list, the selection index and the insertion counter of the container
  unchanged. (A label that expands into several widgets registers them one after the
  other, so a failure on a later line leaves the earlier ones registered.)
\<close>

theorem failed_call_container:
  "(image env self_menu image_path angle image_id onselect scale scale_smooth selectable
        kwargs st = (Inl e, st') \<longrightarrow> st' = st)
   \<and> (text_input env self_menu title default' options onselect password textinput_id
        kwargs st = (Inl e, st') \<longrightarrow> st' = st)
   \<and> (CHR 0x0A \<notin> set title \<and> 0 \<le> max_char
        \<and> (int (length title) \<le> max_char \<or> max_char = 0)
        \<and> label (Suc d) env self_menu uuid title label_id max_char onselect selectable
             kwargs st = (Inl e, st') \<longrightarrow> st' = st)
   \<and> (button env self_menu title action args kwargs st = (Inl e, st') \<longrightarrow>
        widgets (st' ! self_menu) = widgets (st ! self_menu)
        \<and> index (st' ! self_menu) = index (st ! self_menu)
        \<and> added_widgets (st' ! self_menu) = added_widgets (st ! self_menu)
        \<and> ((\<forall>target. action \<noteq> ActMenu target) \<longrightarrow> st' = st))"
proof (intro conjI impI)
  assume "image env self_menu image_path angle image_id onselect scale scale_smooth selectable
        kwargs st = (Inl e, st')"
  then show "st' = st" by (rule image_error_unchanged)
next
  assume "text_input env self_menu title default' options onselect password textinput_id
        kwargs st = (Inl e, st')"
  then show "st' = st" by (rule text_input_error_unchanged)
next
  assume a: "CHR 0x0A \<notin> set title \<and> 0 \<le> max_char
        \<and> (int (length title) \<le> max_char \<or> max_char = 0)
        \<and> label (Suc d) env self_menu uuid title label_id max_char onselect selectable
             kwargs st = (Inl e, st')"
  show "st' = st"
    by (rule label_single_error_unchanged
          [OF a [THEN conjunct1] a [THEN conjunct2, THEN conjunct1]
              a [THEN conjunct2, THEN conjunct2, THEN conjunct1]
              a [THEN conjunct2, THEN conjunct2, THEN conjunct2]])
next
  assume b: "button env self_menu title action args kwargs st = (Inl e, st')"
  note r = button_error_unchanged [OF b]
  show "widgets (st' ! self_menu) = widgets (st ! self_menu)" using r by simp
  show "index (st' ! self_menu) = index (st ! self_menu)" using r by simp
  show "added_widgets (st' ! self_menu) = added_widgets (st ! self_menu)" using r by simp
  assume "\<forall>target. action \<noteq> ActMenu target"
  then show "st' = st" using r by simp
qed

theorem failed_call_container_witness:
  "fst (text_input example_env 0 ''Name'' (PStr ''x'') [] PNone False ''name''
          [(''font_size'', PInt 0)] [example_menu ''main''])
     = Inl (AssertionError ''font size must be greater than zero'')
   \<and> snd (text_input example_env 0 ''Name'' (PStr ''x'') [] PNone False ''name''
          [(''font_size'', PInt 0)] [example_menu ''main''])
     = [example_menu ''main'']"
proof -
  have f: "fst (text_input example_env 0 ''Name'' (PStr ''x'') [] PNone False ''name''
          [(''font_size'', PInt 0)] [example_menu ''main''])
     = Inl (AssertionError ''font size must be greater than zero'')"
    by code_simp
  then have "text_input example_env 0 ''Name'' (PStr ''x'') [] PNone False ''name''
          [(''font_size'', PInt 0)] [example_menu ''main'']
     = (Inl (AssertionError ''font size must be greater than zero''),
        snd (text_input example_env 0 ''Name'' (PStr ''x'') [] PNone False ''name''
          [(''font_size'', PInt 0)] [example_menu ''main'']))"
    by (simp add: prod_eq_iff)
  from failed_call_container [THEN conjunct2, THEN conjunct1, rule_format, OF this] f
  show ?thesis by simp
qed

end
